theory Spec2Isabelle
  imports Complex_Main "HOL-Library.Word" "HOL-Library.Code_Target_Numeral"
begin

unbundle bit_operations_syntax

section \<open>Bytes, slices and the helpers of the Python runtime the sources use\<close>

type_synonym byte = "8 word"

text \<open>The exceptions the two source files raise or receive, with the message \<open>str(err)\<close>
  gives. \<open>Unmodelled\<close> is not an exception: it marks a use of \<open>str.format\<close> outside the
  fragment modelled below (conversions, format specifications, attribute and index access).\<close>

datatype error =
    RuntimeError string
  | StructError string
  | AssertionError
  | IndexError string
  | KeyError string
  | ValueError string
  | OSError string
  | Unmodelled string

fun err_str :: "error \<Rightarrow> string" where
  "err_str (RuntimeError m) = m"
| "err_str (StructError m) = m"
| "err_str AssertionError = []"
| "err_str (IndexError m) = m"
| "err_str (KeyError m) = m"
| "err_str (ValueError m) = m"
| "err_str (OSError m) = m"
| "err_str (Unmodelled m) = m"

text \<open>Python's \<open>xs[a:b]\<close> and \<open>xs[a:]\<close> for non-negative bounds.\<close>

definition slice :: "'a list \<Rightarrow> nat \<Rightarrow> nat \<Rightarrow> 'a list" where
  "slice xs a b = take (b - a) (drop a xs)"

text \<open>\<open>struct.pack(">H", n)\<close> and \<open>struct.pack(">I", n)\<close> for a value in range, and
  \<open>int.from_bytes(bs, "big")\<close>.\<close>

definition pack_H :: "nat \<Rightarrow> byte list" where
  "pack_H n = [of_nat (n div 256), of_nat (n mod 256)]"

definition pack_I :: "nat \<Rightarrow> byte list" where
  "pack_I n = [of_nat (n div 16777216), of_nat (n div 65536 mod 256),
               of_nat (n div 256 mod 256), of_nat (n mod 256)]"

fun from_bytes_acc :: "nat \<Rightarrow> byte list \<Rightarrow> nat" where
  "from_bytes_acc acc [] = acc"
| "from_bytes_acc acc (b # bs) = from_bytes_acc (acc * 256 + unat b) bs"

definition from_bytes_big :: "byte list \<Rightarrow> nat" where
  "from_bytes_big bs = from_bytes_acc 0 bs"

text \<open>\<open>str(n)\<close> of a Python int, and \<open>'%x' % n\<close>.\<close>

definition digit_char :: "nat \<Rightarrow> char" where
  "digit_char d = (if d < 10 then char_of (48 + d) else char_of (87 + d))"

function str_nat :: "nat \<Rightarrow> string" where
  "str_nat n = (if n < 10 then [digit_char n] else str_nat (n div 10) @ [digit_char (n mod 10)])"
  by pat_completeness auto
termination
  by (relation "measure id") auto

function hex_nat :: "nat \<Rightarrow> string" where
  "hex_nat n = (if n < 16 then [digit_char n] else hex_nat (n div 16) @ [digit_char (n mod 16)])"
  by pat_completeness auto
termination
  by (relation "measure id") auto

declare str_nat.simps [simp del] hex_nat.simps [simp del]

definition str_int :: "int \<Rightarrow> string" where
  "str_int i = (if i < 0 then CHR ''-'' # str_nat (nat (- i)) else str_nat (nat i))"

fun join :: "string \<Rightarrow> string list \<Rightarrow> string" where
  "join sep [] = []"
| "join sep [x] = x"
| "join sep (x # y # ys) = x @ sep @ join sep (y # ys)"

text \<open>\<open>str(ipaddress.IPv4Address(n))\<close>: the four octets in decimal, joined by dots.\<close>

definition ipv4_str :: "nat \<Rightarrow> string" where
  "ipv4_str n = join ''.'' (map str_nat
     [n div 16777216 mod 256, n div 65536 mod 256, n div 256 mod 256, n mod 256])"

text \<open>\<open>str(ipaddress.IPv6Address(n))\<close>: eight hextets in lower-case hexadecimal without
  leading zeros; the longest run of at least two zero hextets (the leftmost of the longest)
  is replaced by an empty field, as \<open>_compress_hextets\<close> does.\<close>

fun best_run :: "string list \<Rightarrow> nat \<Rightarrow> nat option \<Rightarrow> nat \<Rightarrow> nat \<Rightarrow> nat \<Rightarrow> nat \<times> nat" where
  "best_run [] idx ds dl bs bl = (bs, bl)"
| "best_run (h # hs) idx ds dl bs bl =
     (if h = ''0'' then
        (let dl' = dl + 1;
             ds' = (case ds of None \<Rightarrow> idx | Some s \<Rightarrow> s)
         in if dl' > bl then best_run hs (idx + 1) (Some ds') dl' ds' dl'
            else best_run hs (idx + 1) (Some ds') dl' bs bl)
      else best_run hs (idx + 1) None 0 bs bl)"

definition compress_hextets :: "string list \<Rightarrow> string list" where
  "compress_hextets hextets =
     (case best_run hextets 0 None 0 0 0 of (bs, bl) \<Rightarrow>
        if bl > 1 then
          (let e = bs + bl;
               h1 = (if e = length hextets then hextets @ [[]] else hextets);
               h2 = take bs h1 @ [[]] @ drop e h1
           in if bs = 0 then [] # h2 else h2)
        else hextets)"

definition ipv6_str :: "nat \<Rightarrow> string" where
  "ipv6_str n = join '':'' (compress_hextets
     (map (\<lambda>k. hex_nat (n div 65536 ^ (7 - k) mod 65536)) [0 ..< 8]))"

section \<open>The STUN client: stun.py\<close>

datatype StunNatType =
    ERROR
  | BLOCKED
  | OPEN_INTERNET
  | SYMMETRIC_UDP_FW
  | FULL_CONE_NAT
  | RESTRICTED_NAT
  | RESTRICTED_PORT_NAT
  | SYMMETRIC_NAT
  | CHANGED_ADDR_ERROR

record StunInfo =
  nat_type :: StunNatType
  src_ip :: string
  ext_ip :: string
  stun_host :: string
  stun_ip :: string
  stun_port :: int

record StunAddress =
  ip :: string
  port :: int

record StunResponse =
  ok :: bool
  ext :: "StunAddress option"
  src :: "StunAddress option"
  changed :: "StunAddress option"

text \<open>\<open>_Netcfg\<close> of runner.py has the fields of \<open>StunInfo\<close> under the same names; from
  here on the fields of \<open>StunInfo\<close> are written with their qualified names.\<close>

record Netcfg =
  nat_type :: StunNatType
  src_ip :: string
  ext_ip :: string
  stun_host :: string
  stun_ip :: string
  stun_port :: int

subsection \<open>Address decoding: \<open>__trans_xor\<close> and \<open>__parse_address\<close>\<close>

definition magic :: "byte list" where
  "magic = [0x21, 0x12, 0xA4, 0x42]"

definition trans_xor :: "byte list \<Rightarrow> byte list \<Rightarrow> byte list" where
  "trans_xor data trans_id =
     (if trans_id = [] then data
      else (let key = magic @ trans_id;
                xor = concat (replicate (length data div length key + 1) key)
            in map (\<lambda>(a, b). a XOR b) (zip data (take (length data) xor))))"

definition parse_address :: "byte list \<Rightarrow> byte list \<Rightarrow> error + StunAddress" where
  "parse_address data trans_id =
     (if length data < 4 then Inl (RuntimeError ''Address: data is too short'')
      else if data ! 1 \<noteq> 0x01 \<and> data ! 1 \<noteq> 0x02 then
        Inl (RuntimeError (''Invalid address family: '' @ str_nat (unat (data ! 1))))
      else (let port = int (from_bytes_big (trans_xor (slice data 2 4) trans_id)) in
        if data ! 1 = 0x01 then
          (if length data < 8 then Inl (RuntimeError ''IPv4 address: data is too short'')
           else Inr \<lparr>ip = ipv4_str (from_bytes_big (trans_xor (slice data 4 8) trans_id)),
                     port = port\<rparr>)
        else
          (if length data < 20 then Inl (RuntimeError ''IPv6 address: data is too short'')
           else Inr \<lparr>ip = ipv6_str (from_bytes_big (trans_xor (slice data 4 20) trans_id)),
                     port = port\<rparr>)))"

subsection \<open>The world outside the process\<close>

text \<open>
  The resolver, the random source, the network, the socket layer, \<open>netifaces\<close> and the
  process launcher are oracles of an environment: each answer may depend on the moment of
  the call (the \<open>clock\<close> of the world, which every call advances) and on the arguments.
  The world also keeps the trace of the calls made, in order. Log lines are not modelled.
  Of \<open>netifaces.gateways()\<close> the model keeps the entry \<open>"default"\<close> (absent: \<open>None\<close>) as a
  map from the family to the interface name; of \<open>netifaces.ifaddresses(iface)\<close>, for each
  family, the list of the \<open>"addr"\<close> values (\<open>None\<close> for an entry without that key).
\<close>

datatype family = AF_INET | AF_INET6

fun family_name :: "family \<Rightarrow> string" where
  "family_name AF_INET = ''AF_INET''"
| "family_name AF_INET6 = ''AF_INET6''"

record addrinfo =
  ai_family :: family
  ai_addr :: "string \<times> int"

datatype reply = SendError string | RecvError string | Datagram "byte list"

datatype event =
    EvGetaddrinfo string int
  | EvSleep real
  | EvSendto "byte list" "string \<times> int"
  | EvSocket family
  | EvBind "string \<times> int"
  | EvClose
  | EvNetifaces
  | EvStopLive777
  | EvStartLive777 Netcfg
  | EvCreateTask nat
  | EvCancelTask nat
  | EvRunProcess "string list" "(string \<times> string) list"
  | EvKillProcess nat

text \<open>Besides the clock and the trace, the world holds the child processes that are alive
  (by pid) and the supervisory tasks that have not finished (by id).\<close>

record world =
  clock :: nat
  trace :: "event list"
  alive :: "nat set"
  tasks :: "nat set"

record env =
  getaddrinfo :: "nat \<Rightarrow> string \<Rightarrow> int \<Rightarrow> error + addrinfo list"
  token_bytes :: "nat \<Rightarrow> byte list"
  network :: "nat \<Rightarrow> byte list \<Rightarrow> string \<times> int \<Rightarrow> reply"
  socket_new :: "nat \<Rightarrow> family \<Rightarrow> error option"
  socket_bind :: "nat \<Rightarrow> string \<times> int \<Rightarrow> error option"
  nif_gateways :: "nat \<Rightarrow> error + (family \<rightharpoonup> string) option"
  nif_interfaces :: "nat \<Rightarrow> error + string list"
  nif_ifaddresses :: "nat \<Rightarrow> string \<Rightarrow> error + (family \<rightharpoonup> string option list)"
  run_process :: "nat \<Rightarrow> string list \<Rightarrow> error + nat"

definition tick :: "event \<Rightarrow> world \<Rightarrow> world" where
  "tick ev w = w\<lparr>clock := clock w + 1, trace := trace w @ [ev]\<rparr>"

text \<open>\<open>await asyncio.sleep(d)\<close>.\<close>

definition sleep :: "real \<Rightarrow> world \<Rightarrow> world" where
  "sleep d w = tick (EvSleep d) w"

text \<open>\<open>secrets.token_bytes(12)\<close> returns exactly twelve bytes.\<close>

definition token12 :: "env \<Rightarrow> nat \<Rightarrow> byte list" where
  "token12 e t = take 12 (token_bytes e t @ replicate 12 0)"

text \<open>The attributes of a \<open>Stun\<close> object: the configuration (\<open>__host\<close>, \<open>__port\<close>,
  \<open>__timeout\<close>, \<open>__retries\<close>, \<open>__retries_delay\<close>) and the state (\<open>__stun_ip\<close>,
  \<open>__sock\<close>; an open socket is represented by its family).\<close>

record Stun =
  s_host :: string
  s_port :: int
  s_timeout :: real
  s_retries :: int
  s_retries_delay :: real
  s_stun_ip :: string
  s_sock :: "family option"

subsection \<open>One attempt: \<open>__inner_make_request\<close>\<close>

definition inner_make_request ::
  "env \<Rightarrow> Stun \<Rightarrow> byte list \<Rightarrow> byte list \<Rightarrow> string \<times> int \<Rightarrow> world
     \<Rightarrow> (error + byte list \<times> string) \<times> world" where
  "inner_make_request e s trans_id req addr w =
     (if s_sock s = None then (Inl AssertionError, w)
      else if length req > 65535 then
        (Inl (StructError ''ushort format requires 0 <= number <= 65535''), w)
      else
        (let msg = pack_H 0x0001 @ pack_H (length req) @ pack_H 0x2112 @ trans_id @ req;
             w1 = tick (EvSendto msg addr) w
         in case network e (clock w) msg addr of
              SendError m \<Rightarrow> (Inr ([], m), w1)
            | RecvError m \<Rightarrow> (Inr ([], m), w1)
            | Datagram d \<Rightarrow>
                (let data = take 2048 d in
                 if length data < 20 then (Inr ([], ''Response is too short''), w1)
                 else if slice data 0 2 \<noteq> [0x01, 0x01] then
                   (Inr ([], ''Invalid response type''), w1)
                 else if slice data 4 20 \<noteq> trans_id then
                   (Inr ([], ''Transaction ID mismatch''), w1)
                 else (Inr (drop 20 data, []), w1))))"

subsection \<open>One logical request: \<open>__make_request\<close>\<close>

text \<open>The retry loop \<open>for _ in range(self.__retries)\<close>; the third-last argument is the
  pair \<open>(resp, error)\<close> as it stands before the iteration.\<close>

fun attempts ::
  "env \<Rightarrow> Stun \<Rightarrow> byte list \<Rightarrow> byte list \<Rightarrow> string \<times> int \<Rightarrow> nat \<Rightarrow> byte list \<times> string
     \<Rightarrow> world \<Rightarrow> (error + byte list \<times> string) \<times> world" where
  "attempts e s trans_id req addr 0 cur w = (Inr cur, w)"
| "attempts e s trans_id req addr (Suc n) cur w =
     (case inner_make_request e s trans_id req addr w of
        (Inl x, w1) \<Rightarrow> (Inl x, w1)
      | (Inr (resp, err), w1) \<Rightarrow>
          if err = [] then (Inr (resp, err), w1)
          else attempts e s trans_id req addr n (resp, err) (sleep (s_retries_delay s) w1))"

definition attr_field :: "nat \<Rightarrow> string option" where
  "attr_field attr_type =
     (if attr_type = 0x0001 then Some ''ext''
      else if attr_type = 0x0020 then Some ''ext''
      else if attr_type = 0x0004 then Some ''src''
      else if attr_type = 0x0005 then Some ''changed''
      else None)"

text \<open>The attribute walk \<open>while remaining > 0\<close>, with the source's \<open>offset\<close> and
  \<open>remaining\<close>; \<open>struct.unpack(">HH", ...)\<close> raises unless it gets four bytes.\<close>

function parse_loop ::
  "byte list \<Rightarrow> byte list \<Rightarrow> nat \<Rightarrow> int \<Rightarrow> (string \<rightharpoonup> StunAddress)
     \<Rightarrow> error + (string \<rightharpoonup> StunAddress)" where
  "parse_loop resp trans_id offset remaining parsed =
     (if remaining > 0 then
        (if length (slice resp offset (offset + 4)) \<noteq> 4 then
           Inl (StructError ''unpack requires a buffer of 4 bytes'')
         else
           (let attr_type = from_bytes_big (slice resp offset (offset + 2));
                attr_len = from_bytes_big (slice resp (offset + 2) (offset + 4));
                offset1 = offset + 4
            in case attr_field attr_type of
                 None \<Rightarrow>
                   parse_loop resp trans_id (offset1 + attr_len)
                     (remaining - (4 + int attr_len)) parsed
               | Some field \<Rightarrow>
                   (case parse_address (drop offset1 resp)
                           (if attr_type = 0x0020 then trans_id else []) of
                      Inl x \<Rightarrow> Inl x
                    | Inr a \<Rightarrow>
                        parse_loop resp trans_id (offset1 + attr_len)
                          (remaining - (4 + int attr_len)) (parsed(field \<mapsto> a)))))
      else Inr parsed)"
  by pat_completeness auto
termination
  by (relation "measure (\<lambda>(resp, trans_id, offset, remaining, parsed). nat remaining)") auto

declare parse_loop.simps [simp del]

datatype addr_arg = AddrStun StunAddress | AddrStr string

definition make_request ::
  "env \<Rightarrow> Stun \<Rightarrow> addr_arg \<Rightarrow> byte list \<Rightarrow> world \<Rightarrow> (error + StunResponse) \<times> world" where
  "make_request e s addr req w =
     (let addr_t = (case addr of AddrStun a \<Rightarrow> (ip a, port a) | AddrStr h \<Rightarrow> (h, s_port s));
          trans_id = [0x21, 0x12, 0xA4, 0x42] @ token12 e (clock w);
          w0 = w\<lparr>clock := clock w + 1\<rparr>
      in case attempts e s trans_id req addr_t (nat (s_retries s)) ([], []) w0 of
           (Inl x, w1) \<Rightarrow> (Inl x, w1)
         | (Inr (resp, err), w1) \<Rightarrow>
             if err \<noteq> [] then (Inr \<lparr>ok = False, ext = None, src = None, changed = None\<rparr>, w1)
             else
               (case parse_loop resp trans_id 0 (int (length resp)) Map.empty of
                  Inl x \<Rightarrow> (Inl x, w1)
                | Inr parsed \<Rightarrow>
                    (Inr \<lparr>ok = True, ext = parsed ''ext'', src = parsed ''src'',
                          changed = parsed ''changed''\<rparr>, w1)))"

subsection \<open>The classification dialogue: \<open>__get_nat_type\<close>\<close>

text \<open>The message of the \<open>RuntimeError\<close> raised for a missing \<open>changed\<close> attribute is
  kept up to the printed response.\<close>

definition get_nat_type ::
  "env \<Rightarrow> Stun \<Rightarrow> string \<Rightarrow> world \<Rightarrow> (error + StunNatType \<times> StunResponse) \<times> world" where
  "get_nat_type e s src_ip_arg w =
     (case make_request e s (AddrStr (s_stun_ip s)) [] w of
        (Inl x, w1) \<Rightarrow> (Inl x, w1)
      | (Inr first, w1) \<Rightarrow>
          if \<not> ok first then (Inr (BLOCKED, first), w1)
          else
            (let req = pack_H 0x0003 @ pack_H 0x0004 @ pack_I 0x00000006 in
             case make_request e s (AddrStr (s_stun_ip s)) req w1 of
               (Inl x, w2) \<Rightarrow> (Inl x, w2)
             | (Inr resp, w2) \<Rightarrow>
                 if (case ext first of None \<Rightarrow> False | Some a \<Rightarrow> ip a = src_ip_arg) then
                   (if ok resp then (Inr (OPEN_INTERNET, resp), w2)
                    else (Inr (SYMMETRIC_UDP_FW, resp), w2))
                 else if ok resp then (Inr (FULL_CONE_NAT, resp), w2)
                 else
                   (case changed first of
                      None \<Rightarrow> (Inl (RuntimeError ''Changed addr is None''), w2)
                    | Some ch \<Rightarrow>
                        (case make_request e s (AddrStun ch) [] w2 of
                           (Inl x, w3) \<Rightarrow> (Inl x, w3)
                         | (Inr resp3, w3) \<Rightarrow>
                             if \<not> ok resp3 then (Inr (CHANGED_ADDR_ERROR, resp3), w3)
                             else if ext resp3 = ext first then
                               (let req2 = pack_H 0x0003 @ pack_H 0x0004 @ pack_I 0x00000002 in
                                case make_request e s (AddrStr (ip ch)) req2 w3 of
                                  (Inl x, w4) \<Rightarrow> (Inl x, w4)
                                | (Inr resp4, w4) \<Rightarrow>
                                    if ok resp4 then (Inr (RESTRICTED_NAT, resp4), w4)
                                    else (Inr (RESTRICTED_PORT_NAT, resp4), w4))
                             else (Inr (SYMMETRIC_NAT, resp3), w3)))))"

subsection \<open>Resolution with retries: \<open>__retried_getaddrinfo_udp\<close>\<close>

text \<open>The loop \<open>while True\<close> may run forever, so its model is a partial function: the
  value \<open>None\<close> stands for a call that never returns. The argument \<open>retries\<close> is the
  local counter of the source.\<close>

partial_function (option) retried_loop ::
  "env \<Rightarrow> real \<Rightarrow> string \<Rightarrow> int \<Rightarrow> int \<Rightarrow> world \<Rightarrow> ((error + addrinfo list) \<times> world) option" where
  "retried_loop e delay h p retries w =
     (case getaddrinfo e (clock w) h p of
        Inr r \<Rightarrow> Some (Inr r, tick (EvGetaddrinfo h p) w)
      | Inl x \<Rightarrow>
          if retries - 1 = 0 then Some (Inl x, tick (EvGetaddrinfo h p) w)
          else retried_loop e delay h p (retries - 1)
                 (sleep delay (tick (EvGetaddrinfo h p) w)))"

definition retried_getaddrinfo_udp ::
  "env \<Rightarrow> Stun \<Rightarrow> string \<Rightarrow> int \<Rightarrow> world \<Rightarrow> ((error + addrinfo list) \<times> world) option" where
  "retried_getaddrinfo_udp e s h p w = retried_loop e (s_retries_delay s) h p (s_retries s) w"

subsection \<open>The probe: \<open>get_info\<close>\<close>

text \<open>The socket part of the \<open>try\<close> block: the \<open>with\<close> statement creates the socket and
  closes it on every way out; \<open>settimeout\<close> refuses a negative timeout. Closing a datagram
  socket is taken to succeed.\<close>

definition with_socket ::
  "env \<Rightarrow> Stun \<Rightarrow> family \<Rightarrow> string \<times> int \<Rightarrow> string \<Rightarrow> world
     \<Rightarrow> (error + StunNatType \<times> string) \<times> Stun \<times> world" where
  "with_socket e s src_fam src_addr src_ip_arg w =
     (case socket_new e (clock w) src_fam of
        Some x \<Rightarrow> (Inl x, s, tick (EvSocket src_fam) w)
      | None \<Rightarrow>
          (let s1 = s\<lparr>s_sock := Some src_fam\<rparr>;
               w1 = tick (EvSocket src_fam) w
           in if s_timeout s < 0 then
                (Inl (ValueError ''Timeout value out of range''), s1, tick EvClose w1)
              else
                (case socket_bind e (clock w1) src_addr of
                   Some x \<Rightarrow> (Inl x, s1, tick EvClose (tick (EvBind src_addr) w1))
                 | None \<Rightarrow>
                     (case get_nat_type e s1 src_ip_arg (tick (EvBind src_addr) w1) of
                        (Inl x, w2) \<Rightarrow> (Inl x, s1, tick EvClose w2)
                      | (Inr (nat_type_v, resp), w2) \<Rightarrow>
                          (Inr (nat_type_v,
                                (case ext resp of None \<Rightarrow> [] | Some a \<Rightarrow> ip a)),
                           s1, tick EvClose w2)))))"

text \<open>The \<open>try\<close> block of \<open>get_info\<close>: \<open>Inl\<close> is an exception that reaches the
  \<open>except\<close> clause, \<open>Inr\<close> the pair \<open>(nat_type, ext_ip)\<close> assigned at its end.\<close>

definition get_info_try ::
  "env \<Rightarrow> Stun \<Rightarrow> string \<Rightarrow> int \<Rightarrow> world
     \<Rightarrow> ((error + StunNatType \<times> string) \<times> Stun \<times> world) option" where
  "get_info_try e s src_ip_arg src_port w =
     (case retried_getaddrinfo_udp e s src_ip_arg src_port w of
        None \<Rightarrow> None
      | Some (Inl x, w1) \<Rightarrow> Some (Inl x, s, w1)
      | Some (Inr [], w1) \<Rightarrow> Some (Inl (IndexError ''list index out of range''), s, w1)
      | Some (Inr (a # rest), w1) \<Rightarrow>
          (case retried_getaddrinfo_udp e s (s_host s) (s_port s) w1 of
             None \<Rightarrow> None
           | Some (Inl x, w2) \<Rightarrow> Some (Inl x, s, w2)
           | Some (Inr infos, w2) \<Rightarrow>
               (let stun_ips = map (\<lambda>i. fst (ai_addr i))
                                 (filter (\<lambda>i. ai_family i = ai_family a) infos)
                in case stun_ips of
                     [] \<Rightarrow> Some (Inl (RuntimeError (''Can't resolve '' @ family_name (ai_family a)
                                  @ '' address for STUN'')), s, w2)
                   | first_ip # others \<Rightarrow>
                       Some (with_socket e
                         (if s_stun_ip s = [] \<or> s_stun_ip s \<notin> set stun_ips
                          then s\<lparr>s_stun_ip := first_ip\<rparr> else s)
                         (ai_family a) (ai_addr a) src_ip_arg w2))))"

definition get_info ::
  "env \<Rightarrow> Stun \<Rightarrow> string \<Rightarrow> int \<Rightarrow> world \<Rightarrow> (StunInfo \<times> Stun \<times> world) option" where
  "get_info e s src_ip_arg src_port w =
     (case get_info_try e s src_ip_arg src_port w of
        None \<Rightarrow> None
      | Some (r, s1, w1) \<Rightarrow>
          (let (nat_type_v, ext_ip_v) = (case r of Inl x \<Rightarrow> (ERROR, []) | Inr v \<Rightarrow> v) in
           Some (\<lparr>StunInfo.nat_type = nat_type_v, StunInfo.src_ip = src_ip_arg,
                   StunInfo.ext_ip = ext_ip_v, StunInfo.stun_host = s_host s1,
                   StunInfo.stun_ip = s_stun_ip s1, StunInfo.stun_port = s_port s1\<rparr>,
                 s1\<lparr>s_sock := None\<rparr>, w1)))"

section \<open>The supervisor: runner.py\<close>

subsection \<open>Local-address discovery: \<open>__get_default_ip\<close>\<close>

text \<open>\<open>addrs[proto][0]["addr"]\<close>.\<close>

definition first_addr :: "(family \<rightharpoonup> string option list) \<Rightarrow> family \<Rightarrow> error + string" where
  "first_addr addrs proto =
     (case addrs proto of
        None \<Rightarrow> Inl (KeyError (family_name proto))
      | Some [] \<Rightarrow> Inl (IndexError ''list index out of range'')
      | Some (None # rest) \<Rightarrow> Inl (KeyError ''addr'')
      | Some (Some a # rest) \<Rightarrow> Inr a)"

text \<open>The first part of the \<open>try\<close> block: the default gateway. \<open>Inr None\<close> stands for
  falling through to the enumeration of the interfaces.\<close>

definition default_route_ip :: "env \<Rightarrow> nat \<Rightarrow> error + string option" where
  "default_route_ip e t =
     (case nif_gateways e t of
        Inl x \<Rightarrow> Inl x
      | Inr None \<Rightarrow> Inr None
      | Inr (Some dflt) \<Rightarrow>
          (case dflt AF_INET of
             Some iface \<Rightarrow>
               (case nif_ifaddresses e t iface of
                  Inl x \<Rightarrow> Inl x
                | Inr addrs \<Rightarrow> map_sum id Some (first_addr addrs AF_INET))
           | None \<Rightarrow>
               (case dflt AF_INET6 of
                  Some iface \<Rightarrow>
                    (case nif_ifaddresses e t iface of
                       Inl x \<Rightarrow> Inl x
                     | Inr addrs \<Rightarrow> map_sum id Some (first_addr addrs AF_INET6))
                | None \<Rightarrow> Inr None)))"

fun scan_interfaces :: "env \<Rightarrow> nat \<Rightarrow> string list \<Rightarrow> error + string option" where
  "scan_interfaces e t [] = Inr None"
| "scan_interfaces e t (iface # rest) =
     (if take 2 iface = ''lo'' \<or> take 6 iface = ''docker'' then scan_interfaces e t rest
      else
        (case nif_ifaddresses e t iface of
           Inl x \<Rightarrow> Inl x
         | Inr addrs \<Rightarrow>
             if addrs AF_INET \<noteq> None then map_sum id Some (first_addr addrs AF_INET)
             else if addrs AF_INET6 \<noteq> None then map_sum id Some (first_addr addrs AF_INET6)
             else scan_interfaces e t rest))"

definition get_default_ip :: "env \<Rightarrow> world \<Rightarrow> string \<times> world" where
  "get_default_ip e w =
     (let t = clock w;
          found =
            (case default_route_ip e t of
               Inl x \<Rightarrow> Inl x
             | Inr (Some a) \<Rightarrow> Inr (Some a)
             | Inr None \<Rightarrow>
                 (case nif_interfaces e t of
                    Inl x \<Rightarrow> Inl x
                  | Inr ifaces \<Rightarrow> scan_interfaces e t ifaces))
      in ((case found of Inl x \<Rightarrow> [] | Inr None \<Rightarrow> [] | Inr (Some a) \<Rightarrow> a), tick EvNetifaces w))"

subsection \<open>The supervisor object and the network probe: \<open>__get_netcfg\<close>\<close>

text \<open>A supervisory task is the coroutine \<open>__live777_task_loop(netcfg)\<close>; between two
  \<open>await\<close>s it stands at one of four places.\<close>

datatype task_pc = AtLaunch | AtTail | AtKill | AtSleep

record Task =
  task_id :: nat
  task_netcfg :: Netcfg
  task_pc :: task_pc

text \<open>The attributes of a \<open>Live777Runner\<close>; \<open>r_cmd\<close> is \<open>self.__cmd\<close>, the template that
  \<open>tools.build_cmd\<close> returned at construction, and \<open>r_live777_proc\<close> holds the pid of the
  process object.\<close>

record Runner =
  r_stun :: Stun
  r_check_interval :: int
  r_check_retries :: int
  r_check_retries_delay :: real
  r_cmd :: "string list"
  r_live777_task :: "Task option"
  r_live777_proc :: "nat option"

definition netcfg_of_info :: "StunInfo \<Rightarrow> Netcfg" where
  "netcfg_of_info info =
     \<lparr>nat_type = StunInfo.nat_type info, src_ip = StunInfo.src_ip info,
      ext_ip = StunInfo.ext_ip info, stun_host = StunInfo.stun_host info,
      stun_ip = StunInfo.stun_ip info, stun_port = StunInfo.stun_port info\<rparr>"

definition get_netcfg :: "env \<Rightarrow> Runner \<Rightarrow> world \<Rightarrow> (Netcfg \<times> Runner \<times> world) option" where
  "get_netcfg e r w =
     (case get_default_ip e w of (found, w1) \<Rightarrow>
        (let src_ip_v = (if found = [] then ''0.0.0.0'' else found) in
         case get_info e (r_stun r) src_ip_v 0 w1 of
           None \<Rightarrow> None
         | Some (info, s1, w2) \<Rightarrow> Some (netcfg_of_info info, r\<lparr>r_stun := s1\<rparr>, w2)))"

subsection \<open>Rendering the command line\<close>

text \<open>\<open>str(value)\<close> of a member of the enumeration.\<close>

fun str_nat_type :: "StunNatType \<Rightarrow> string" where
  "str_nat_type ERROR = ''StunNatType.ERROR''"
| "str_nat_type BLOCKED = ''StunNatType.BLOCKED''"
| "str_nat_type OPEN_INTERNET = ''StunNatType.OPEN_INTERNET''"
| "str_nat_type SYMMETRIC_UDP_FW = ''StunNatType.SYMMETRIC_UDP_FW''"
| "str_nat_type FULL_CONE_NAT = ''StunNatType.FULL_CONE_NAT''"
| "str_nat_type RESTRICTED_NAT = ''StunNatType.RESTRICTED_NAT''"
| "str_nat_type RESTRICTED_PORT_NAT = ''StunNatType.RESTRICTED_PORT_NAT''"
| "str_nat_type SYMMETRIC_NAT = ''StunNatType.SYMMETRIC_NAT''"
| "str_nat_type CHANGED_ADDR_ERROR = ''StunNatType.CHANGED_ADDR_ERROR''"

text \<open>The dictionary \<open>placeholders\<close> as first built: the synthetic entry, then every field
  of \<open>dataclasses.asdict(netcfg)\<close> through \<open>str\<close>.\<close>

definition placeholders :: "Netcfg \<Rightarrow> (string \<rightharpoonup> string)" where
  "placeholders netcfg = map_of
     [(''o_stun_server'',
         ''--stun-server='' @ stun_ip netcfg @ '':'' @ str_int (stun_port netcfg)),
      (''nat_type'', str_nat_type (nat_type netcfg)),
      (''src_ip'', src_ip netcfg),
      (''ext_ip'', ext_ip netcfg),
      (''stun_host'', stun_host netcfg),
      (''stun_ip'', stun_ip netcfg),
      (''stun_port'', str_int (stun_port netcfg))]"

text \<open>\<open>part.format(**placeholders)\<close> for string values, on the fragment of the format
  language made of literal text, the doubled braces and the fields \<open>{name}\<close>. The second
  argument is the field name read so far (\<open>None\<close> outside a field). A field with no name
  or a number for a name refers to a positional argument, of which there is none.\<close>

fun py_format :: "(string \<rightharpoonup> string) \<Rightarrow> string option \<Rightarrow> string \<Rightarrow> error + string" where
  "py_format m None [] = Inr []"
| "py_format m (Some name) [] = Inl (ValueError ''expected } before end of string'')"
| "py_format m None [c] =
     (if c = CHR ''{'' then Inl (ValueError ''Single { encountered in format string'')
      else if c = CHR ''}'' then Inl (ValueError ''Single } encountered in format string'')
      else Inr [c])"
| "py_format m None (c # d # cs) =
     (if c = CHR ''{'' then
        (if d = CHR ''{'' then map_sum id ((#) c) (py_format m None cs)
         else py_format m (Some []) (d # cs))
      else if c = CHR ''}'' then
        (if d = CHR ''}'' then map_sum id ((#) c) (py_format m None cs)
         else Inl (ValueError ''Single } encountered in format string''))
      else map_sum id ((#) c) (py_format m None (d # cs)))"
| "py_format m (Some name) (c # cs) =
     (if c = CHR ''}'' then
        (if name = [] \<or> list_all (\<lambda>x. x \<in> set ''0123456789'') name then
           Inl (IndexError ''Replacement index out of range for positional args tuple'')
         else
           (case m name of
              None \<Rightarrow> Inl (KeyError name)
            | Some v \<Rightarrow> map_sum id ((@) v) (py_format m None cs)))
      else if c = CHR ''{'' then Inl (ValueError ''unexpected { in field name'')
      else if c \<in> set ''!:.['' then Inl (Unmodelled name)
      else py_format m (Some (name @ [c])) cs)"

text \<open>The list comprehension over the template: the first token that fails raises.\<close>

fun format_all :: "(string \<rightharpoonup> string) \<Rightarrow> string list \<Rightarrow> error + string list" where
  "format_all m [] = Inr []"
| "format_all m (part # rest) =
     (case py_format m None part of
        Inl x \<Rightarrow> Inl x
      | Inr v \<Rightarrow> map_sum id ((#) v) (format_all m rest))"

text \<open>\<open>while "{o_stun_server}" in cmd: cmd.remove("{o_stun_server}")\<close>.\<close>

function remove_while :: "string \<Rightarrow> string list \<Rightarrow> string list" where
  "remove_while x cmd = (if x \<in> set cmd then remove_while x (remove1 x cmd) else cmd)"
  by pat_completeness auto
termination
  by (relation "measure (\<lambda>(x, cmd). length cmd)") (auto simp: length_remove1 dest!: length_pos_if_in_set)

declare remove_while.simps [simp del]

text \<open>The argv of \<open>__start_live777_proc\<close>, up to the call of \<open>aioproc.run_process\<close>.\<close>

definition render_cmd :: "string list \<Rightarrow> Netcfg \<Rightarrow> error + string list" where
  "render_cmd cmd netcfg =
     (if ext_ip netcfg = [] then
        format_all ((placeholders netcfg)(''o_stun_server'' \<mapsto> []))
          (remove_while ''{o_stun_server}'' cmd)
      else format_all (placeholders netcfg) cmd)"

definition child_env :: "Netcfg \<Rightarrow> (string \<times> string) list" where
  "child_env netcfg =
     [(''LIVE777_STUN_URL'', ''stun:'' @ stun_host netcfg @ '':'' @ str_int (stun_port netcfg)),
      (''LIVE777_VIDEO_SOURCE'', ''kvmd::ustreamer::h264''),
      (''LIVE777_AUDIO_SOURCE'', ''hw:tc358743,0'')]"

subsection \<open>Starting and stopping the child\<close>

text \<open>Modelled from the spec: \<open>aioproc.kill_process\<close> is not among the sources. The spec's
  kill protocol ends with the child reaped in every case ("Always reap"), so after the
  call the process is not alive.\<close>

definition kill_process :: "nat \<Rightarrow> world \<Rightarrow> world" where
  "kill_process pid w = tick (EvKillProcess pid) (w\<lparr>alive := alive w - {pid}\<rparr>)"

definition kill_live777_proc :: "Runner \<Rightarrow> world \<Rightarrow> Runner \<times> world" where
  "kill_live777_proc r w =
     (case r_live777_proc r of
        Some pid \<Rightarrow> (r\<lparr>r_live777_proc := None\<rparr>, kill_process pid w)
      | None \<Rightarrow> (r\<lparr>r_live777_proc := None\<rparr>, w))"

text \<open>\<open>task.cancel()\<close> followed by \<open>await asyncio.gather(task, return_exceptions=True)\<close>:
  the cancellation ends the coroutine wherever it stands (\<open>CancelledError\<close> leaves the loop
  through \<open>break\<close> or through the handler), and \<open>gather\<close> returns once it has ended,
  whatever the outcome.\<close>

definition cancel_and_gather :: "Task \<Rightarrow> world \<Rightarrow> world" where
  "cancel_and_gather t w = tick (EvCancelTask (task_id t)) (w\<lparr>tasks := tasks w - {task_id t}\<rparr>)"

text \<open>The trace notes each call of \<open>__stop_live777\<close> and \<open>__start_live777\<close>.\<close>

definition record_call :: "event \<Rightarrow> world \<Rightarrow> world" where
  "record_call ev w = w\<lparr>trace := trace w @ [ev]\<rparr>"

definition stop_live777 :: "Runner \<Rightarrow> world \<Rightarrow> Runner \<times> world" where
  "stop_live777 r w =
     (let w0 = record_call EvStopLive777 w;
          w1 = (case r_live777_task r of Some t \<Rightarrow> cancel_and_gather t w0 | None \<Rightarrow> w0)
      in case kill_live777_proc r w1 of (r1, w2) \<Rightarrow> (r1\<lparr>r_live777_task := None\<rparr>, w2))"

definition start_live777 :: "Runner \<Rightarrow> Netcfg \<Rightarrow> world \<Rightarrow> (error + unit) \<times> Runner \<times> world" where
  "start_live777 r netcfg w =
     (let w0 = record_call (EvStartLive777 netcfg) w in
      if r_live777_task r \<noteq> None then (Inl AssertionError, r, w0)
      else
        (Inr (),
         r\<lparr>r_live777_task := Some \<lparr>task_id = clock w0, task_netcfg = netcfg, task_pc = AtLaunch\<rparr>\<rparr>,
         tick (EvCreateTask (clock w0)) (w0\<lparr>tasks := insert (clock w0) (tasks w0)\<rparr>)))"

text \<open>\<open>aioproc.run_process\<close> is the oracle \<open>run_process\<close> of the environment: it raises or
  gives the pid of a new child, which is then alive.\<close>

definition start_live777_proc ::
  "env \<Rightarrow> Runner \<Rightarrow> Netcfg \<Rightarrow> world \<Rightarrow> (error + unit) \<times> Runner \<times> world" where
  "start_live777_proc e r netcfg w =
     (if r_live777_proc r \<noteq> None then (Inl AssertionError, r, w)
      else
        (case render_cmd (r_cmd r) netcfg of
           Inl x \<Rightarrow> (Inl x, r, w)
         | Inr cmd \<Rightarrow>
             (case run_process e (clock w) cmd of
                Inl x \<Rightarrow> (Inl x, r, tick (EvRunProcess cmd (child_env netcfg)) w)
              | Inr pid \<Rightarrow>
                  (Inr (), r\<lparr>r_live777_proc := Some pid\<rparr>,
                   tick (EvRunProcess cmd (child_env netcfg))
                     (w\<lparr>alive := insert pid (alive w)\<rparr>)))))"

text \<open>One step of \<open>__live777_task_loop\<close>, from one \<open>await\<close> to the next: launching the
  child; the tail of its output ending (the \<open>RuntimeError\<close> "unexpectedly died"); the kill
  in the handler; the sleep of one second.\<close>

definition set_pc :: "task_pc \<Rightarrow> Runner \<Rightarrow> Runner" where
  "set_pc pc r = r\<lparr>r_live777_task := map_option (\<lambda>t. t\<lparr>task_pc := pc\<rparr>) (r_live777_task r)\<rparr>"

definition task_step :: "env \<Rightarrow> Runner \<Rightarrow> world \<Rightarrow> Runner \<times> world" where
  "task_step e r w =
     (case r_live777_task r of
        None \<Rightarrow> (r, w)
      | Some t \<Rightarrow>
          (case task_pc t of
             AtLaunch \<Rightarrow>
               (case start_live777_proc e r (task_netcfg t) w of
                  (Inl x, r1, w1) \<Rightarrow> (set_pc AtKill r1, w1)
                | (Inr u, r1, w1) \<Rightarrow> (set_pc AtTail r1, w1))
           | AtTail \<Rightarrow> (set_pc AtKill r, w)
           | AtKill \<Rightarrow> (case kill_live777_proc r w of (r1, w1) \<Rightarrow> (set_pc AtSleep r1, w1))
           | AtSleep \<Rightarrow> (set_pc AtLaunch r, sleep 1 w)))"

text \<open>A child that exits by itself.\<close>

definition child_exit :: "nat \<Rightarrow> world \<Rightarrow> world" where
  "child_exit pid w = w\<lparr>alive := alive w - {pid}\<rparr>"

subsection \<open>The outer loop: \<open>__run\<close>\<close>

text \<open>The probing loop \<open>for retry in range(...)\<close>; the fourth argument is \<open>netcfg\<close> as it
  stands before the iteration.\<close>

fun probe_loop ::
  "env \<Rightarrow> Runner \<Rightarrow> nat \<Rightarrow> Netcfg \<Rightarrow> world \<Rightarrow> (Netcfg \<times> Runner \<times> world) option" where
  "probe_loop e r 0 netcfg w = Some (netcfg, r, w)"
| "probe_loop e r (Suc n) netcfg w =
     (case get_netcfg e r w of
        None \<Rightarrow> None
      | Some (netcfg1, r1, w1) \<Rightarrow>
          if ext_ip netcfg1 \<noteq> [] then Some (netcfg1, r1, w1)
          else probe_loop e r1 n netcfg1 (sleep (r_check_retries_delay r1) w1))"

definition default_netcfg :: Netcfg where
  "default_netcfg = \<lparr>nat_type = ERROR, src_ip = [], ext_ip = [], stun_host = [],
     stun_ip = [], stun_port = 0\<rparr>"

text \<open>The comparison and its two branches (\<open>if netcfg != prev_netcfg: ...\<close>); the result
  holds the new \<open>prev_netcfg\<close>. An exception leaves \<open>__run\<close>.\<close>

definition supervise ::
  "Runner \<Rightarrow> Netcfg option \<Rightarrow> Netcfg \<Rightarrow> world
     \<Rightarrow> (error + unit) \<times> Runner \<times> Netcfg option \<times> world" where
  "supervise r prev_netcfg netcfg w =
     (if Some netcfg \<noteq> prev_netcfg then
        (if src_ip netcfg \<noteq> [] then
           (case stop_live777 r w of (r1, w1) \<Rightarrow>
              (case start_live777 r1 netcfg w1 of
                 (Inl x, r2, w2) \<Rightarrow> (Inl x, r2, prev_netcfg, w2)
               | (Inr u, r2, w2) \<Rightarrow> (Inr (), r2, Some netcfg, w2)))
         else
           (case stop_live777 r w of (r1, w1) \<Rightarrow> (Inr (), r1, Some netcfg, w1)))
      else (Inr (), r, prev_netcfg, w))"

text \<open>One iteration of \<open>while True\<close> in \<open>__run\<close>.\<close>

definition run_iteration ::
  "env \<Rightarrow> Runner \<Rightarrow> Netcfg option \<Rightarrow> world
     \<Rightarrow> ((error + unit) \<times> Runner \<times> Netcfg option \<times> world) option" where
  "run_iteration e r prev_netcfg w =
     (case probe_loop e r (if prev_netcfg = None then 1 else nat (r_check_retries r))
             default_netcfg w of
        None \<Rightarrow> None
      | Some (netcfg, r1, w1) \<Rightarrow>
          (case supervise r1 prev_netcfg netcfg w1 of
             (Inl x, r2, prev2, w2) \<Rightarrow> Some (Inl x, r2, prev2, w2)
           | (Inr u, r2, prev2, w2) \<Rightarrow>
               Some (Inr (), r2, prev2, sleep (real_of_int (r_check_interval r2)) w2)))"

subsection \<open>The states a supervisor can reach\<close>

text \<open>What can happen to a supervisor, one atomic step at a time: a call of stop or of
  start (both run under \<open>aiotools.atomic_fg\<close>), a probe, a step of the supervisory task,
  the exit of a child.\<close>

datatype sup_event = DoStop | DoStart Netcfg | DoProbe | TaskStep | ChildExit nat

fun apply_event :: "env \<Rightarrow> sup_event \<Rightarrow> Runner \<times> world \<Rightarrow> Runner \<times> world" where
  "apply_event e DoStop (r, w) = stop_live777 r w"
| "apply_event e (DoStart netcfg) (r, w) = snd (start_live777 r netcfg w)"
| "apply_event e DoProbe (r, w) =
     (case get_netcfg e r w of None \<Rightarrow> (r, w) | Some (netcfg, r1, w1) \<Rightarrow> (r1, w1))"
| "apply_event e TaskStep (r, w) = task_step e r w"
| "apply_event e (ChildExit pid) (r, w) = (r, child_exit pid w)"

fun run_events :: "env \<Rightarrow> sup_event list \<Rightarrow> Runner \<times> world \<Rightarrow> Runner \<times> world" where
  "run_events e [] st = st"
| "run_events e (ev # evs) st = run_events e evs (apply_event e ev st)"

text \<open>A supervisor as \<open>__init__\<close> leaves it, in a world with no child and no task.\<close>

definition initial :: "Runner \<times> world \<Rightarrow> bool" where
  "initial st = (r_live777_task (fst st) = None \<and> r_live777_proc (fst st) = None
                 \<and> alive (snd st) = {} \<and> tasks (snd st) = {})"

section \<open>Concrete inputs\<close>

text \<open>A client configured with three retries and an open socket, an empty world, and
  environments assembled from a resolver and a network. In these environments
  \<open>netifaces\<close> fails, every socket call succeeds, the random source gives the bytes
  1 to 12 and the launcher gives the pid 4242.\<close>

definition demo_stun :: Stun where
  "demo_stun = \<lparr>s_host = ''stun.example.org'', s_port = 3478, s_timeout = 5, s_retries = 3,
     s_retries_delay = 1, s_stun_ip = ''192.0.2.1'', s_sock = Some AF_INET\<rparr>"

definition demo_world :: world where
  "demo_world = \<lparr>clock = 0, trace = [], alive = {}, tasks = {}\<rparr>"

definition demo_env ::
  "(nat \<Rightarrow> string \<Rightarrow> int \<Rightarrow> error + addrinfo list)
     \<Rightarrow> (nat \<Rightarrow> byte list \<Rightarrow> string \<times> int \<Rightarrow> reply) \<Rightarrow> env" where
  "demo_env gai net =
     \<lparr>getaddrinfo = gai,
      token_bytes = (\<lambda>t. [1, 2, 3, 4, 5, 6, 7, 8, 9, 10, 11, 12]),
      network = net,
      socket_new = (\<lambda>t f. None),
      socket_bind = (\<lambda>t a. None),
      nif_gateways = (\<lambda>t. Inl (OSError ''netifaces failure'')),
      nif_interfaces = (\<lambda>t. Inr []),
      nif_ifaddresses = (\<lambda>t iface. Inr Map.empty),
      run_process = (\<lambda>t cmd. Inr 4242)\<rparr>"

definition gai_fails :: "nat \<Rightarrow> string \<Rightarrow> int \<Rightarrow> error + addrinfo list" where
  "gai_fails t h p = Inl (OSError ''Temporary failure in name resolution'')"

text \<open>A resolver that fails until the clock reaches 4, and one that always answers; both
  map the STUN host to 192.0.2.1 and any other name to itself, as IPv4.\<close>

definition gai_v4 :: "nat \<Rightarrow> string \<Rightarrow> int \<Rightarrow> error + addrinfo list" where
  "gai_v4 t h p =
     Inr [\<lparr>ai_family = AF_INET,
           ai_addr = (if h = ''stun.example.org'' then ''192.0.2.1'' else h, p)\<rparr>]"

definition gai_late :: "nat \<Rightarrow> string \<Rightarrow> int \<Rightarrow> error + addrinfo list" where
  "gai_late t h p = (if t < 4 then gai_fails t h p else gai_v4 t h p)"

definition net_silent :: "nat \<Rightarrow> byte list \<Rightarrow> string \<times> int \<Rightarrow> reply" where
  "net_silent t msg addr = RecvError ''timed out''"

text \<open>A server whose reply passes the three header checks of the client and carries one
  MAPPED-ADDRESS attribute with the address family 3.\<close>

definition net_bad_family :: "nat \<Rightarrow> byte list \<Rightarrow> string \<times> int \<Rightarrow> reply" where
  "net_bad_family t msg addr =
     Datagram ([0x01, 0x01, 0x00, 0x0C]
               @ [0x21, 0x12, 0xA4, 0x42, 1, 2, 3, 4, 5, 6, 7, 8, 9, 10, 11, 12]
               @ [0x00, 0x01, 0x00, 0x08, 0x00, 0x03, 0x0D, 0x96, 203, 0, 113, 7])"

text \<open>The calls of a run of the resolver with \<open>n\<close> attempts: a sleep between two
  attempts, none after the last.\<close>

fun attempts_trace :: "string \<Rightarrow> int \<Rightarrow> real \<Rightarrow> nat \<Rightarrow> event list" where
  "attempts_trace h p d 0 = []"
| "attempts_trace h p d (Suc 0) = [EvGetaddrinfo h p]"
| "attempts_trace h p d (Suc (Suc n)) =
     EvGetaddrinfo h p # EvSleep d # attempts_trace h p d (Suc n)"

text \<open>A resolver that gives the STUN host an IPv6 address only.\<close>

definition gai_mismatch :: "nat \<Rightarrow> string \<Rightarrow> int \<Rightarrow> error + addrinfo list" where
  "gai_mismatch t h p =
     (if h = ''stun.example.org'' then Inr [\<lparr>ai_family = AF_INET6, ai_addr = (''2001:db8::1'', p)\<rparr>]
      else Inr [\<lparr>ai_family = AF_INET, ai_addr = (h, p)\<rparr>])"

text \<open>A server seen from behind a restricted NAT: it answers every request but the one
  asking for a reply from another address and port (flags 6). Each answer repeats the
  16 bytes the client compares with its transaction id and carries a MAPPED-ADDRESS
  (203.0.113.7, port 54321) and a CHANGED-ADDRESS (192.0.2.2, port 3479).\<close>

definition stun_reply :: "byte list \<Rightarrow> byte list \<Rightarrow> reply" where
  "stun_reply msg mapped =
     Datagram ([0x01, 0x01, 0x00, 0x18] @ slice msg 6 22
               @ [0x00, 0x01, 0x00, 0x08, 0x00, 0x01] @ mapped
               @ [0x00, 0x05, 0x00, 0x08, 0x00, 0x01, 0x0D, 0x97, 192, 0, 2, 2])"

definition net_restricted :: "nat \<Rightarrow> byte list \<Rightarrow> string \<times> int \<Rightarrow> reply" where
  "net_restricted t msg addr =
     (if drop 22 msg = [0x00, 0x03, 0x00, 0x04, 0x00, 0x00, 0x00, 0x06] then RecvError ''timed out''
      else stun_reply msg [0xD4, 0x31, 203, 0, 113, 7])"

text \<open>A network configuration and a supervisor with no task and no child.\<close>

definition demo_netcfg :: Netcfg where
  "demo_netcfg = \<lparr>nat_type = FULL_CONE_NAT, src_ip = ''10.0.0.5'', ext_ip = ''203.0.113.7'',
     stun_host = ''stun.example.org'', stun_ip = ''192.0.2.1'', stun_port = 3478\<rparr>"

definition demo_runner :: Runner where
  "demo_runner = \<lparr>r_stun = demo_stun\<lparr>s_sock := None\<rparr>, r_check_interval = 30, r_check_retries = 5,
     r_check_retries_delay = 1,
     r_cmd = [''/usr/bin/live777'', ''--bind={src_ip}'', ''{o_stun_server}''],
     r_live777_task = None, r_live777_proc = None\<rparr>"

section \<open>Notions used to state the properties\<close>

text \<open>A reply that makes an attempt of \<open>__inner_make_request\<close> fail, for the transaction
  id sent: an exception of the socket with a message, a datagram shorter than 20 bytes
  (of the 2048 bytes read), one whose first two bytes are not 0x0101, or one whose bytes
  4 to 20 differ from the transaction id.\<close>

fun rejected :: "byte list \<Rightarrow> reply \<Rightarrow> bool" where
  "rejected trans_id (SendError m) = (m \<noteq> [])"
| "rejected trans_id (RecvError m) = (m \<noteq> [])"
| "rejected trans_id (Datagram d) =
     (length (take 2048 d) < 20 \<or> slice (take 2048 d) 0 2 \<noteq> [0x01, 0x01]
      \<or> slice (take 2048 d) 4 20 \<noteq> trans_id)"

text \<open>The datagram handed to \<open>sendto\<close> for a transaction id and a payload, and the calls
  of \<open>n\<close> failed attempts: each sends the datagram and sleeps.\<close>

definition request_msg :: "byte list \<Rightarrow> byte list \<Rightarrow> byte list" where
  "request_msg trans_id req = pack_H 0x0001 @ pack_H (length req) @ pack_H 0x2112 @ trans_id @ req"

fun retry_trace :: "byte list \<Rightarrow> string \<times> int \<Rightarrow> real \<Rightarrow> nat \<Rightarrow> event list" where
  "retry_trace msg addr d 0 = []"
| "retry_trace msg addr d (Suc n) = EvSendto msg addr # EvSleep d # retry_trace msg addr d n"


definition net_timeout_then_bad_family :: "nat \<Rightarrow> byte list \<Rightarrow> string \<times> int \<Rightarrow> reply" where
  "net_timeout_then_bad_family t msg addr =
     (if t < 3 then net_silent t msg addr else net_bad_family t msg addr)"

text \<open>The dialogue in the words of the specification: a request is sent to an address
  and a port with a payload given byte by byte, and the outcome is read off the answers.\<close>

definition send_request ::
  "env \<Rightarrow> Stun \<Rightarrow> string \<times> int \<Rightarrow> byte list \<Rightarrow> world \<Rightarrow> (error + StunResponse) \<times> world" where
  "send_request e s target payload w =
     make_request e s (AddrStun \<lparr>ip = fst target, port = snd target\<rparr>) payload w"

definition nat_dialogue ::
  "env \<Rightarrow> Stun \<Rightarrow> string \<Rightarrow> world \<Rightarrow> (error + StunNatType \<times> StunResponse) \<times> world" where
  "nat_dialogue e s src_ip_arg w =
     (case send_request e s (s_stun_ip s, s_port s) [] w of
        (Inl x, w1) \<Rightarrow> (Inl x, w1)
      | (Inr first, w1) \<Rightarrow>
          if \<not> ok first then (Inr (BLOCKED, first), w1)
          else
            (case send_request e s (s_stun_ip s, s_port s)
                    [0x00, 0x03, 0x00, 0x04, 0x00, 0x00, 0x00, 0x06] w1 of
               (Inl x, w2) \<Rightarrow> (Inl x, w2)
             | (Inr second, w2) \<Rightarrow>
                 if map_option ip (ext first) = Some src_ip_arg then
                   (Inr (if ok second then OPEN_INTERNET else SYMMETRIC_UDP_FW, second), w2)
                 else if ok second then (Inr (FULL_CONE_NAT, second), w2)
                 else
                   (case changed first of
                      None \<Rightarrow> (Inl (RuntimeError ''Changed addr is None''), w2)
                    | Some ch \<Rightarrow>
                        (case send_request e s (ip ch, port ch) [] w2 of
                           (Inl x, w3) \<Rightarrow> (Inl x, w3)
                         | (Inr third, w3) \<Rightarrow>
                             if \<not> ok third then (Inr (CHANGED_ADDR_ERROR, third), w3)
                             else if ext third = ext first then
                               (case send_request e s (ip ch, s_port s)
                                       [0x00, 0x03, 0x00, 0x04, 0x00, 0x00, 0x00, 0x02] w3 of
                                  (Inl x, w4) \<Rightarrow> (Inl x, w4)
                                | (Inr fourth, w4) \<Rightarrow>
                                    (Inr (if ok fourth then RESTRICTED_NAT
                                          else RESTRICTED_PORT_NAT, fourth), w4))
                             else (Inr (SYMMETRIC_NAT, third), w3)))))"

text \<open>The calls of \<open>__stop_live777\<close> and \<open>__start_live777\<close> made between two worlds.\<close>

fun is_call :: "event \<Rightarrow> bool" where
  "is_call EvStopLive777 = True"
| "is_call (EvStartLive777 netcfg) = True"
| "is_call ev = False"

definition supervisor_calls :: "world \<Rightarrow> world \<Rightarrow> event list" where
  "supervisor_calls w w' = filter is_call (drop (length (trace w)) (trace w'))"

text \<open>Every child alive is the one the supervisor holds, and every unfinished task is the
  one it holds.\<close>

definition tracked :: "Runner \<times> world \<Rightarrow> bool" where
  "tracked st = (alive (snd st) \<subseteq> set_option (r_live777_proc (fst st))
                 \<and> tasks (snd st) \<subseteq> task_id ` set_option (r_live777_task (fst st)))"

text \<open>The \<open>src_ip\<close> of the configuration a probe of the supervisor gives.\<close>

definition probed_src_ip :: "env \<Rightarrow> Runner \<Rightarrow> world \<Rightarrow> string option" where
  "probed_src_ip e r w = map_option (\<lambda>(netcfg, r1, w1). src_ip netcfg) (get_netcfg e r w)"

section \<open>The resolution retry helper\<close>

text \<open>With a resolver that always fails and a counter that starts at or below zero, the
  loop never returns: the counter is decremented before it is compared with zero.\<close>

lemma retried_loop_diverges:
  assumes fail: "\<And>t. isl (getaddrinfo e t h p)" and neg: "retries \<le> 0"
  shows "retried_loop e d h p retries w = None"
proof -
  have gen: "e' = e \<and> h' = h \<and> p' = p \<longrightarrow> \<not> r \<le> 0"
    if a: "retried_loop e' d' h' p' r w' = Some y" for e' d' h' p' r w' y
  proof (rule retried_loop.raw_induct
          [where P = "\<lambda>e' d' h' p' r w y. e' = e \<and> h' = h \<and> p' = p \<longrightarrow> \<not> r \<le> 0", OF _ a])
    fix f and e' :: env and d' :: real and h' :: string and p' :: int and r :: int
      and w :: world and y :: "(error + addrinfo list) \<times> world"
    assume ih: "\<And>e' d' h' p' r w y. f e' d' h' p' r w = Some y \<Longrightarrow>
                  e' = e \<and> h' = h \<and> p' = p \<longrightarrow> \<not> r \<le> 0"
      and eq: "(case getaddrinfo e' (clock w) h' p' of
                  Inl x \<Rightarrow> if r - 1 = 0 then Some (Inl x, tick (EvGetaddrinfo h' p') w)
                           else f e' d' h' p' (r - 1) (sleep d' (tick (EvGetaddrinfo h' p') w))
                | Inr res \<Rightarrow> Some (Inr res, tick (EvGetaddrinfo h' p') w)) = Some y"
    show "e' = e \<and> h' = h \<and> p' = p \<longrightarrow> \<not> r \<le> 0"
    proof (intro impI notI)
      assume same: "e' = e \<and> h' = h \<and> p' = p" and r0: "r \<le> 0"
      from fail [of "clock w"] obtain x where x: "getaddrinfo e (clock w) h p = Inl x"
        by (cases "getaddrinfo e (clock w) h p") auto
      from r0 have "r - 1 \<noteq> 0" by simp
      with eq same x have "f e d' h p (r - 1) (sleep d' (tick (EvGetaddrinfo h p) w)) = Some y"
        by simp
      from ih [OF this] r0 show False by simp
    qed
  qed
  show ?thesis
  proof (cases "retried_loop e d h p retries w")
    case None
    then show ?thesis .
  next
    case (Some y)
    from gen [OF Some] neg show ?thesis by simp
  qed
qed

lemma retried_loop_returns:
  "1 \<le> retries \<Longrightarrow> nat retries = Suc m \<Longrightarrow>
   \<exists>r w' n. retried_loop e d h p retries w = Some (r, w') \<and> 1 \<le> n \<and> n \<le> nat retries \<and>
     r = getaddrinfo e (clock w + 2 * (n - 1)) h p \<and>
     (\<forall>k<n - 1. isl (getaddrinfo e (clock w + 2 * k) h p)) \<and>
     (isl r \<longrightarrow> n = nat retries) \<and>
     trace w' = trace w @ attempts_trace h p d n \<and> clock w' = clock w + 2 * n - 1"
proof (induction m arbitrary: retries w)
  case 0
  then have r1: "retries = 1" by simp
  show ?case
    apply (rule exI [where x = "getaddrinfo e (clock w) h p"])
    apply (rule exI [where x = "tick (EvGetaddrinfo h p) w"])
    apply (rule exI [where x = 1])
    apply (subst retried_loop.simps)
    apply (auto simp: r1 tick_def split: sum.splits)
    done
next
  case (Suc m)
  then have r2: "1 \<le> retries - 1" "nat (retries - 1) = Suc m" "retries - 1 \<noteq> 0" by auto
  show ?case
  proof (cases "getaddrinfo e (clock w) h p")
    case (Inr res)
    show ?thesis
      apply (rule exI [where x = "getaddrinfo e (clock w) h p"])
      apply (rule exI [where x = "tick (EvGetaddrinfo h p) w"])
      apply (rule exI [where x = 1])
      apply (subst retried_loop.simps)
      using Suc.prems apply (auto simp: Inr tick_def split: sum.splits)
      done
  next
    case (Inl x)
    let ?w1 = "sleep d (tick (EvGetaddrinfo h p) w)"
    from Suc.IH [OF r2(1,2), of ?w1] obtain r w' n where
      ih: "retried_loop e d h p (retries - 1) ?w1 = Some (r, w')" "1 \<le> n" "n \<le> nat (retries - 1)"
        "r = getaddrinfo e (clock ?w1 + 2 * (n - 1)) h p"
        "\<forall>k<n - 1. isl (getaddrinfo e (clock ?w1 + 2 * k) h p)"
        "isl r \<longrightarrow> n = nat (retries - 1)"
        "trace w' = trace ?w1 @ attempts_trace h p d n" "clock w' = clock ?w1 + 2 * n - 1"
      by blast
    have cw1: "clock ?w1 = clock w + 2" "trace ?w1 = trace w @ [EvGetaddrinfo h p, EvSleep d]"
      by (simp_all add: sleep_def tick_def)
    obtain n' where n': "n = Suc n'" using ih(2) by (cases n) auto
    have all: "\<forall>k<Suc n - 1. isl (getaddrinfo e (clock w + 2 * k) h p)"
    proof (intro allI impI)
      fix k assume "k < Suc n - 1"
      show "isl (getaddrinfo e (clock w + 2 * k) h p)"
      proof (cases k)
        case 0 then show ?thesis using Inl by simp
      next
        case (Suc j)
        with \<open>k < Suc n - 1\<close> have "j < n - 1" by simp
        with ih(5) have "isl (getaddrinfo e (clock ?w1 + 2 * j) h p)" by blast
        then show ?thesis by (simp add: cw1 Suc)
      qed
    qed
    show ?thesis
      apply (rule exI [where x = r])
      apply (rule exI [where x = w'])
      apply (rule exI [where x = "Suc n"])
      apply (subst retried_loop.simps)
      using ih(1,3,4,6,7,8) r2(3) Suc.prems all
      apply (simp add: Inl cw1 n')
      apply (auto simp: algebra_simps)
      done
  qed
qed

text \<open>
  C10. \<open>__retried_getaddrinfo_udp\<close> returns whenever \<open>retries \<ge> 1\<close>: it makes some number
  \<open>n\<close> of attempts with \<open>1 \<le> n \<le> retries\<close>, sleeping \<open>retries_delay\<close> between two attempts
  and not after the last; its outcome is that of the last attempt, every earlier attempt
  failed, and a failure is the outcome only when all \<open>retries\<close> attempts were used. With
  \<open>retries \<le> 0\<close> and a resolver that keeps failing, the call never returns.
\<close>

theorem retried_getaddrinfo_udp_retries:
  "(1 \<le> s_retries s \<longrightarrow>
      (\<exists>r w' n. retried_getaddrinfo_udp e s h p w = Some (r, w') \<and> 1 \<le> n \<and> n \<le> nat (s_retries s)
         \<and> r = getaddrinfo e (clock w + 2 * (n - 1)) h p
         \<and> (\<forall>k<n - 1. isl (getaddrinfo e (clock w + 2 * k) h p))
         \<and> (isl r \<longrightarrow> n = nat (s_retries s))
         \<and> trace w' = trace w @ attempts_trace h p (s_retries_delay s) n))
   \<and> (s_retries s \<le> 0 \<and> (\<forall>t. isl (getaddrinfo e t h p)) \<longrightarrow>
        retried_getaddrinfo_udp e s h p w = None)"
proof (intro conjI impI)
  assume pos: "1 \<le> s_retries s"
  then obtain m where m: "nat (s_retries s) = Suc m" by (cases "nat (s_retries s)") auto
  from retried_loop_returns [OF pos m, of e "s_retries_delay s" h p w]
  show "\<exists>r w' n. retried_getaddrinfo_udp e s h p w = Some (r, w') \<and> 1 \<le> n \<and> n \<le> nat (s_retries s)
         \<and> r = getaddrinfo e (clock w + 2 * (n - 1)) h p
         \<and> (\<forall>k<n - 1. isl (getaddrinfo e (clock w + 2 * k) h p))
         \<and> (isl r \<longrightarrow> n = nat (s_retries s))
         \<and> trace w' = trace w @ attempts_trace h p (s_retries_delay s) n"
    unfolding retried_getaddrinfo_udp_def by blast
next
  assume "s_retries s \<le> 0 \<and> (\<forall>t. isl (getaddrinfo e t h p))"
  then show "retried_getaddrinfo_udp e s h p w = None"
    unfolding retried_getaddrinfo_udp_def by (intro retried_loop_diverges) auto
qed

theorem retried_getaddrinfo_udp_retries_witness:
  "retried_getaddrinfo_udp (demo_env gai_late net_silent) demo_stun ''stun.example.org'' 3478 demo_world \<noteq> None
   \<and> retried_getaddrinfo_udp (demo_env gai_fails net_silent) (demo_stun\<lparr>s_retries := 0\<rparr>)
        ''stun.example.org'' 3478 demo_world = None"
proof
  have "(1::int) \<le> s_retries demo_stun" by (simp add: demo_stun_def)
  with retried_getaddrinfo_udp_retries
         [of demo_stun "demo_env gai_late net_silent" "''stun.example.org''" 3478 demo_world]
  show "retried_getaddrinfo_udp (demo_env gai_late net_silent) demo_stun ''stun.example.org'' 3478
          demo_world \<noteq> None"
    by auto
next
  have "s_retries (demo_stun\<lparr>s_retries := 0\<rparr>) \<le> 0
        \<and> (\<forall>t. isl (getaddrinfo (demo_env gai_fails net_silent) t ''stun.example.org'' 3478))"
    by (simp add: demo_env_def gai_fails_def)
  with retried_getaddrinfo_udp_retries
         [of "demo_stun\<lparr>s_retries := 0\<rparr>" "demo_env gai_fails net_silent" "''stun.example.org''" 3478
             demo_world]
  show "retried_getaddrinfo_udp (demo_env gai_fails net_silent) (demo_stun\<lparr>s_retries := 0\<rparr>)
          ''stun.example.org'' 3478 demo_world = None"
    by blast
qed

section \<open>The wire format\<close>

text \<open>
  C2. The datagram of a Binding Request with an empty payload, for the random bytes 1 to 12:
  the header has 22 bytes, not 20. After the type and the length come the two bytes 0x2112
  that \<open>__inner_make_request\<close> packs, and only then the 16 bytes of \<open>trans_id\<close> (the magic
  cookie and the random bytes), so the cookie stands at the offsets 6 to 10 and the
  random bytes at 10 to 22.
\<close>

theorem request_header_layout:
  "make_request (demo_env gai_fails net_silent) (demo_stun\<lparr>s_retries := 1\<rparr>)
     (AddrStr ''192.0.2.1'') [] demo_world
   = (Inr \<lparr>ok = False, ext = None, src = None, changed = None\<rparr>,
      \<lparr>clock = 3,
       trace = [EvSendto [0x00, 0x01, 0x00, 0x00, 0x21, 0x12, 0x21, 0x12, 0xA4, 0x42,
                          1, 2, 3, 4, 5, 6, 7, 8, 9, 10, 11, 12] (''192.0.2.1'', 3478),
                EvSleep 1],
       alive = {}, tasks = {}\<rparr>)"
  by code_simp

text \<open>
  C6. An XOR-MAPPED-ADDRESS body for the IPv6 address 2001:db8::1 and the port 3478, masked
  with the magic cookie followed by the twelve random bytes 1 to 12. \<open>__parse_address\<close>
  recovers the port but not the address: \<open>__trans_xor\<close> puts the magic cookie in front of
  \<open>trans_id\<close>, which already starts with it, so the bytes 4 to 16 of the address are
  unmasked with the cookie and the first eight random bytes.
\<close>

theorem xor_mapped_ipv6_decoding:
  "parse_address [0x00, 0x02, 0x2C, 0x84, 0x01, 0x13, 0xA9, 0xFA, 0x01, 0x02, 0x03, 0x04,
                  0x05, 0x06, 0x07, 0x08, 0x09, 0x0A, 0x0B, 0x0D]
                 ([0x21, 0x12, 0xA4, 0x42] @ [1, 2, 3, 4, 5, 6, 7, 8, 9, 10, 11, 12])
   = Inr \<lparr>ip = ''2001:db8:2010:a746:404:40c:c0c:c05'', port = 3478\<rparr>"
  by code_simp

section \<open>The classification dialogue\<close>

lemma make_request_str:
  "make_request e s (AddrStr h) req w = make_request e s (AddrStun \<lparr>ip = h, port = s_port s\<rparr>) req w"
  by (simp add: make_request_def)

lemma change_request_bytes:
  "pack_H 0x0003 @ pack_H 0x0004 @ pack_I 0x00000006 = [0x00, 0x03, 0x00, 0x04, 0x00, 0x00, 0x00, 0x06]"
  "pack_H 0x0003 @ pack_H 0x0004 @ pack_I 0x00000002 = [0x00, 0x03, 0x00, 0x04, 0x00, 0x00, 0x00, 0x02]"
  by (simp_all add: pack_H_def pack_I_def)

lemma ext_ip_test:
  "(case ext first of None \<Rightarrow> False | Some a \<Rightarrow> ip a = x) = (map_option ip (ext first) = Some x)"
  by (cases "ext first") auto

lemma if_pair_merge:
  "(if c then (Inr (a, r), w) else (Inr (b, r), w)) = (Inr (if c then a else b, r), w)"
  by simp

lemma stun_address_eta: "\<lparr>ip = ip ch, port = port ch\<rparr> = (ch :: StunAddress)"
  by simp

text \<open>
  C1. \<open>__get_nat_type\<close> follows the dialogue step by step. The first Binding Request has
  an empty payload and goes to the primary address; if it fails the result is \<open>BLOCKED\<close>.
  Otherwise a Change-Request with the flags 0x00000006 goes to the same address. When the
  \<open>ext.ip\<close> of the first response equals \<open>src_ip\<close>, the result is \<open>OPEN_INTERNET\<close> if that
  request succeeded and \<open>SYMMETRIC_UDP_FW\<close> if not. Otherwise it is \<open>FULL_CONE_NAT\<close> if the
  request succeeded; if not and the first response has no \<open>changed\<close> attribute, the
  dialogue raises; otherwise a plain request goes to the changed address, and its failure
  gives \<open>CHANGED_ADDR_ERROR\<close>. If its \<open>ext\<close> equals the first \<open>ext\<close>, a request with the
  flags 0x00000002 goes to \<open>changed.ip\<close> with the configured port and gives
  \<open>RESTRICTED_NAT\<close> on success and \<open>RESTRICTED_PORT_NAT\<close> on failure; a different \<open>ext\<close>
  gives \<open>SYMMETRIC_NAT\<close>.
\<close>

theorem get_nat_type_dialogue:
  "get_nat_type e s src_ip_arg w = nat_dialogue e s src_ip_arg w"
  unfolding get_nat_type_def nat_dialogue_def send_request_def Let_def
  by (simp only: make_request_str change_request_bytes ext_ip_test if_pair_merge fst_conv snd_conv
        stun_address_eta)

theorem get_nat_type_dialogue_witness:
  "fst (get_nat_type (demo_env gai_v4 net_restricted) demo_stun ''10.0.0.5'' demo_world)
   = Inr (RESTRICTED_NAT,
          \<lparr>ok = True, ext = Some \<lparr>ip = ''203.0.113.7'', port = 54321\<rparr>, src = None,
           changed = Some \<lparr>ip = ''192.0.2.2'', port = 3479\<rparr>\<rparr>)"
proof -
  have "fst (nat_dialogue (demo_env gai_v4 net_restricted) demo_stun ''10.0.0.5'' demo_world)
        = Inr (RESTRICTED_NAT,
           \<lparr>ok = True, ext = Some \<lparr>ip = ''203.0.113.7'', port = 54321\<rparr>, src = None,
            changed = Some \<lparr>ip = ''192.0.2.2'', port = 3479\<rparr>\<rparr>)"
    by code_simp
  then show ?thesis
    by (simp add: get_nat_type_dialogue)
qed

section \<open>The request layer\<close>

text \<open>One attempt: a rejected reply gives an error message and no data; an accepted
  datagram gives its body.\<close>

lemma inner_rejected:
  assumes "s_sock s \<noteq> None" "length req \<le> 65535"
    and "rejected tid (network e (clock w) (request_msg tid req) addr)"
  shows "\<exists>err. err \<noteq> [] \<and> inner_make_request e s tid req addr w
           = (Inr ([], err), tick (EvSendto (request_msg tid req) addr) w)"
  using assms
  by (cases "network e (clock w) (request_msg tid req) addr")
     (auto simp: inner_make_request_def request_msg_def Let_def)

lemma inner_accepted:
  assumes "s_sock s \<noteq> None" "length req \<le> 65535"
    and "network e (clock w) (request_msg tid req) addr = Datagram d"
    and "\<not> rejected tid (Datagram d)"
  shows "inner_make_request e s tid req addr w
           = (Inr (drop 20 (take 2048 d), []), tick (EvSendto (request_msg tid req) addr) w)"
  using assms
  by (auto simp: inner_make_request_def request_msg_def Let_def)

lemma attempts_all_rejected:
  assumes "s_sock s \<noteq> None" "length req \<le> 65535"
  shows "(\<forall>k<n. rejected tid (network e (clock w + 2 * k) (request_msg tid req) addr)) \<Longrightarrow>
     \<exists>res. attempts e s tid req addr n cur w
        = (Inr res, w\<lparr>clock := clock w + 2 * n,
                       trace := trace w @ retry_trace (request_msg tid req) addr (s_retries_delay s) n\<rparr>)
      \<and> (n = 0 \<longrightarrow> res = cur) \<and> (0 < n \<longrightarrow> fst res = [] \<and> snd res \<noteq> [])"
proof (induction n arbitrary: cur w)
  case 0
  then show ?case by simp
next
  case (Suc n)
  from Suc.prems have r0: "rejected tid (network e (clock w) (request_msg tid req) addr)"
    by (metis add.right_neutral mult_0_right zero_less_Suc)
  from inner_rejected [OF assms r0] obtain err where err: "err \<noteq> []"
    "inner_make_request e s tid req addr w = (Inr ([], err), tick (EvSendto (request_msg tid req) addr) w)"
    by blast
  let ?w1 = "sleep (s_retries_delay s) (tick (EvSendto (request_msg tid req) addr) w)"
  have cw: "clock ?w1 = clock w + 2" by (simp add: sleep_def tick_def)
  have "\<forall>k<n. rejected tid (network e (clock ?w1 + 2 * k) (request_msg tid req) addr)"
  proof (intro allI impI)
    fix k assume "k < n"
    then have "Suc k < Suc n" by simp
    with Suc.prems have "rejected tid (network e (clock w + 2 * Suc k) (request_msg tid req) addr)"
      by blast
    then show "rejected tid (network e (clock ?w1 + 2 * k) (request_msg tid req) addr)"
      by (simp add: cw)
  qed
  from Suc.IH [OF this, of "([], err)"] obtain res where
    res: "attempts e s tid req addr n ([], err) ?w1
        = (Inr res, ?w1\<lparr>clock := clock ?w1 + 2 * n,
                       trace := trace ?w1 @ retry_trace (request_msg tid req) addr (s_retries_delay s) n\<rparr>)"
      "n = 0 \<longrightarrow> res = ([], err)" "0 < n \<longrightarrow> fst res = [] \<and> snd res \<noteq> []"
    by blast
  show ?case
    apply (rule exI [where x = res])
    using err res
    apply (cases n)
    apply (auto simp: sleep_def tick_def)
    done
qed

lemma attempts_accepted_at:
  assumes "s_sock s \<noteq> None" "length req \<le> 65535"
  shows "k < n \<Longrightarrow>
     (\<forall>j<k. rejected tid (network e (clock w + 2 * j) (request_msg tid req) addr)) \<Longrightarrow>
     network e (clock w + 2 * k) (request_msg tid req) addr = Datagram d \<Longrightarrow>
     \<not> rejected tid (Datagram d) \<Longrightarrow>
     attempts e s tid req addr n cur w
        = (Inr (drop 20 (take 2048 d), []),
           w\<lparr>clock := clock w + 2 * k + 1,
             trace := trace w @ retry_trace (request_msg tid req) addr (s_retries_delay s) k
                      @ [EvSendto (request_msg tid req) addr]\<rparr>)"
proof (induction k arbitrary: n cur w)
  case 0
  then obtain m where n: "n = Suc m" by (cases n) auto
  from 0 have net: "network e (clock w) (request_msg tid req) addr = Datagram d" by simp
  show ?case
    using inner_accepted [OF assms net 0(4)] by (simp add: n tick_def)
next
  case (Suc k)
  then obtain m where n: "n = Suc m" and km: "k < m" by (cases n) auto
  from Suc.prems(2) have r0: "rejected tid (network e (clock w) (request_msg tid req) addr)"
    by (metis add.right_neutral mult_0_right zero_less_Suc)
  from inner_rejected [OF assms r0] obtain err where err: "err \<noteq> []"
    "inner_make_request e s tid req addr w = (Inr ([], err), tick (EvSendto (request_msg tid req) addr) w)"
    by blast
  let ?w1 = "sleep (s_retries_delay s) (tick (EvSendto (request_msg tid req) addr) w)"
  have cw: "clock ?w1 = clock w + 2" by (simp add: sleep_def tick_def)
  have rej: "\<forall>j<k. rejected tid (network e (clock ?w1 + 2 * j) (request_msg tid req) addr)"
  proof (intro allI impI)
    fix j assume "j < k"
    then have "Suc j < Suc k" by simp
    with Suc.prems(2) have "rejected tid (network e (clock w + 2 * Suc j) (request_msg tid req) addr)"
      by blast
    then show "rejected tid (network e (clock ?w1 + 2 * j) (request_msg tid req) addr)"
      by (simp add: cw)
  qed
  have net: "network e (clock ?w1 + 2 * k) (request_msg tid req) addr = Datagram d"
    using Suc.prems(3) by (simp add: cw)
  from Suc.IH [OF km rej net Suc.prems(4), of "([], err)"]
  show ?case using err by (simp add: n sleep_def tick_def)
qed

text \<open>
  C7, as the code has it. For a logical request with the socket open: when each of the
  \<open>retries\<close> attempts (there is at least one) gets a rejected reply, that is a socket
  error, a short datagram, a wrong type or a transaction id mismatch, the request sends the
  same datagram, hence the same transaction id, \<open>retries\<close> times, sleeps \<open>retries_delay\<close>
  after each, and returns \<open>ok = False\<close>. When an attempt gets a datagram that passes the
  header checks and the walk over its attributes raises, the request makes no further
  attempt and the exception leaves \<open>__make_request\<close>.
\<close>

theorem make_request_retries:
  assumes "s_sock s \<noteq> None" and "length req \<le> 65535"
    and "addr_t = (case addr of AddrStun a \<Rightarrow> (ip a, port a) | AddrStr h \<Rightarrow> (h, s_port s))"
    and "tid = [0x21, 0x12, 0xA4, 0x42] @ token12 e (clock w)"
    and "msg = request_msg tid req"
    and "n = nat (s_retries s)"
  shows "(0 < n \<and> (\<forall>k<n. rejected tid (network e (clock w + 1 + 2 * k) msg addr_t)) \<longrightarrow>
            make_request e s addr req w
              = (Inr \<lparr>ok = False, ext = None, src = None, changed = None\<rparr>,
                 w\<lparr>clock := clock w + 1 + 2 * n,
                   trace := trace w @ retry_trace msg addr_t (s_retries_delay s) n\<rparr>))
       \<and> (\<forall>k d x. k < n \<and> (\<forall>j<k. rejected tid (network e (clock w + 1 + 2 * j) msg addr_t))
               \<and> network e (clock w + 1 + 2 * k) msg addr_t = Datagram d
               \<and> \<not> rejected tid (Datagram d)
               \<and> parse_loop (drop 20 (take 2048 d)) tid 0 (int (length (drop 20 (take 2048 d))))
                     Map.empty = Inl x \<longrightarrow>
            make_request e s addr req w
              = (Inl x,
                 w\<lparr>clock := clock w + 2 + 2 * k,
                   trace := trace w @ retry_trace msg addr_t (s_retries_delay s) k
                            @ [EvSendto msg addr_t]\<rparr>))"
proof (intro conjI impI allI)
  let ?w0 = "w\<lparr>clock := clock w + 1\<rparr>"
  assume a: "0 < n \<and> (\<forall>k<n. rejected tid (network e (clock w + 1 + 2 * k) msg addr_t))"
  then have "\<forall>k<n. rejected tid (network e (clock ?w0 + 2 * k) (request_msg tid req) addr_t)"
    by (simp add: assms(5))
  from attempts_all_rejected [OF assms(1,2) this, of "([], [])"] a obtain res where
    res: "attempts e s tid req addr_t n ([], []) ?w0
        = (Inr res, ?w0\<lparr>clock := clock ?w0 + 2 * n,
              trace := trace ?w0 @ retry_trace (request_msg tid req) addr_t (s_retries_delay s) n\<rparr>)"
      "fst res = []" "snd res \<noteq> []"
    by blast
  obtain resp err where re: "res = (resp, err)" by (cases res)
  show "make_request e s addr req w
          = (Inr \<lparr>ok = False, ext = None, src = None, changed = None\<rparr>,
             w\<lparr>clock := clock w + 1 + 2 * n,
               trace := trace w @ retry_trace msg addr_t (s_retries_delay s) n\<rparr>)"
    using res re assms(3,4,5,6)
    by (simp add: make_request_def Let_def)
next
  fix k :: nat and d :: "byte list" and x :: error
  let ?w0 = "w\<lparr>clock := clock w + 1\<rparr>"
  let ?body = "drop 20 (take 2048 d)"
  assume a: "k < n \<and> (\<forall>j<k. rejected tid (network e (clock w + 1 + 2 * j) msg addr_t))
               \<and> network e (clock w + 1 + 2 * k) msg addr_t = Datagram d
               \<and> \<not> rejected tid (Datagram d)
               \<and> parse_loop ?body tid 0 (int (length ?body)) Map.empty = Inl x"
  then have k: "k < n"
    and rej: "\<forall>j<k. rejected tid (network e (clock ?w0 + 2 * j) (request_msg tid req) addr_t)"
    and net: "network e (clock ?w0 + 2 * k) (request_msg tid req) addr_t = Datagram d"
    and acc: "\<not> rejected tid (Datagram d)"
    and bad: "parse_loop ?body tid 0 (int (length ?body)) Map.empty = Inl x"
    by (simp_all add: assms(5))
  from attempts_accepted_at [OF assms(1,2) k rej net acc, of "([], [])"]
  have "attempts e s tid req addr_t n ([], []) ?w0
        = (Inr (?body, []),
           ?w0\<lparr>clock := clock ?w0 + 2 * k + 1,
             trace := trace ?w0 @ retry_trace (request_msg tid req) addr_t (s_retries_delay s) k
                      @ [EvSendto (request_msg tid req) addr_t]\<rparr>)" .
  then show "make_request e s addr req w
              = (Inl x,
                 w\<lparr>clock := clock w + 2 + 2 * k,
                   trace := trace w @ retry_trace msg addr_t (s_retries_delay s) k
                            @ [EvSendto msg addr_t]\<rparr>)"
    using bad assms(3,4,5,6)
    by (simp add: make_request_def Let_def)
qed

theorem make_request_retries_witness:
  "make_request (demo_env gai_fails net_silent) demo_stun (AddrStr ''192.0.2.1'') [] demo_world
     = (Inr \<lparr>ok = False, ext = None, src = None, changed = None\<rparr>,
        \<lparr>clock = 7,
         trace = [EvSendto [0x00, 0x01, 0x00, 0x00, 0x21, 0x12, 0x21, 0x12, 0xA4, 0x42,
                            1, 2, 3, 4, 5, 6, 7, 8, 9, 10, 11, 12] (''192.0.2.1'', 3478),
                  EvSleep 1,
                  EvSendto [0x00, 0x01, 0x00, 0x00, 0x21, 0x12, 0x21, 0x12, 0xA4, 0x42,
                            1, 2, 3, 4, 5, 6, 7, 8, 9, 10, 11, 12] (''192.0.2.1'', 3478),
                  EvSleep 1,
                  EvSendto [0x00, 0x01, 0x00, 0x00, 0x21, 0x12, 0x21, 0x12, 0xA4, 0x42,
                            1, 2, 3, 4, 5, 6, 7, 8, 9, 10, 11, 12] (''192.0.2.1'', 3478),
                  EvSleep 1],
         alive = {}, tasks = {}\<rparr>)
   \<and> make_request (demo_env gai_fails net_timeout_then_bad_family) demo_stun
        (AddrStr ''192.0.2.1'') [] demo_world
     = (Inl (RuntimeError ''Invalid address family: 3''),
        \<lparr>clock = 4,
         trace = [EvSendto [0x00, 0x01, 0x00, 0x00, 0x21, 0x12, 0x21, 0x12, 0xA4, 0x42,
                            1, 2, 3, 4, 5, 6, 7, 8, 9, 10, 11, 12] (''192.0.2.1'', 3478),
                  EvSleep 1,
                  EvSendto [0x00, 0x01, 0x00, 0x00, 0x21, 0x12, 0x21, 0x12, 0xA4, 0x42,
                            1, 2, 3, 4, 5, 6, 7, 8, 9, 10, 11, 12] (''192.0.2.1'', 3478)],
         alive = {}, tasks = {}\<rparr>)"
proof
  let ?e = "demo_env gai_fails net_silent"
  have h1: "s_sock demo_stun \<noteq> None" by (simp add: demo_stun_def)
  have h2: "length ([] :: byte list) \<le> 65535" by simp
  note T = make_request_retries [OF h1 h2 refl refl refl refl,
             where e = ?e and w = demo_world and addr = "AddrStr ''192.0.2.1''"]
  have n3: "nat (s_retries demo_stun) = 3" by (simp add: demo_stun_def)
  have p: "0 < nat (s_retries demo_stun)
      \<and> (\<forall>k<nat (s_retries demo_stun).
            rejected ([0x21, 0x12, 0xA4, 0x42] @ token12 ?e (clock demo_world))
              (network ?e (clock demo_world + 1 + 2 * k)
                 (request_msg ([0x21, 0x12, 0xA4, 0x42] @ token12 ?e (clock demo_world)) [])
                 (case AddrStr ''192.0.2.1'' of AddrStun a \<Rightarrow> (ip a, port a)
                  | AddrStr h \<Rightarrow> (h, s_port demo_stun))))"
    by (simp add: n3 demo_env_def net_silent_def)
  from T [THEN conjunct1, rule_format, OF p]
  show "make_request ?e demo_stun (AddrStr ''192.0.2.1'') [] demo_world
     = (Inr \<lparr>ok = False, ext = None, src = None, changed = None\<rparr>,
        \<lparr>clock = 7,
         trace = [EvSendto [0x00, 0x01, 0x00, 0x00, 0x21, 0x12, 0x21, 0x12, 0xA4, 0x42,
                            1, 2, 3, 4, 5, 6, 7, 8, 9, 10, 11, 12] (''192.0.2.1'', 3478),
                  EvSleep 1,
                  EvSendto [0x00, 0x01, 0x00, 0x00, 0x21, 0x12, 0x21, 0x12, 0xA4, 0x42,
                            1, 2, 3, 4, 5, 6, 7, 8, 9, 10, 11, 12] (''192.0.2.1'', 3478),
                  EvSleep 1,
                  EvSendto [0x00, 0x01, 0x00, 0x00, 0x21, 0x12, 0x21, 0x12, 0xA4, 0x42,
                            1, 2, 3, 4, 5, 6, 7, 8, 9, 10, 11, 12] (''192.0.2.1'', 3478),
                  EvSleep 1],
         alive = {}, tasks = {}\<rparr>)"
    by (simp add: n3 numeral_3_eq_3 demo_stun_def demo_world_def demo_env_def token12_def
          request_msg_def pack_H_def)
next
  let ?e = "demo_env gai_fails net_timeout_then_bad_family"
  let ?tid = "[0x21, 0x12, 0xA4, 0x42] @ token12 ?e (clock demo_world)"
  let ?d = "[0x01, 0x01, 0x00, 0x0C]
               @ [0x21, 0x12, 0xA4, 0x42, 1, 2, 3, 4, 5, 6, 7, 8, 9, 10, 11, 12]
               @ [0x00, 0x01, 0x00, 0x08, 0x00, 0x03, 0x0D, 0x96, 203, 0, 113, 7] :: byte list"
  have h1: "s_sock demo_stun \<noteq> None" by (simp add: demo_stun_def)
  have h2: "length ([] :: byte list) \<le> 65535" by simp
  note T = make_request_retries [OF h1 h2 refl refl refl refl,
             where e = ?e and w = demo_world and addr = "AddrStr ''192.0.2.1''"]
  have n3: "nat (s_retries demo_stun) = 3" by (simp add: demo_stun_def)
  have tid: "?tid = [0x21, 0x12, 0xA4, 0x42, 1, 2, 3, 4, 5, 6, 7, 8, 9, 10, 11, 12]"
    by (simp add: demo_env_def token12_def)
  have "case parse_loop (drop 20 (take 2048 ?d)) ?tid 0 (int (length (drop 20 (take 2048 ?d))))
               Map.empty of
          Inl x \<Rightarrow> x = RuntimeError ''Invalid address family: 3'' | Inr m \<Rightarrow> False"
    by code_simp
  then have pl: "parse_loop (drop 20 (take 2048 ?d)) ?tid 0 (int (length (drop 20 (take 2048 ?d))))
              Map.empty = Inl (RuntimeError ''Invalid address family: 3'')"
    by (simp split: sum.splits)
  have p: "(1::nat) < nat (s_retries demo_stun)
      \<and> (\<forall>j<1. rejected ?tid
            (network ?e (clock demo_world + 1 + 2 * j) (request_msg ?tid [])
               (case AddrStr ''192.0.2.1'' of AddrStun a \<Rightarrow> (ip a, port a)
                | AddrStr h \<Rightarrow> (h, s_port demo_stun))))
      \<and> network ?e (clock demo_world + 1 + 2 * 1) (request_msg ?tid [])
            (case AddrStr ''192.0.2.1'' of AddrStun a \<Rightarrow> (ip a, port a)
             | AddrStr h \<Rightarrow> (h, s_port demo_stun)) = Datagram ?d
      \<and> \<not> rejected ?tid (Datagram ?d)
      \<and> parse_loop (drop 20 (take 2048 ?d)) ?tid 0 (int (length (drop 20 (take 2048 ?d))))
              Map.empty = Inl (RuntimeError ''Invalid address family: 3'')"
    apply (intro conjI)
        apply (simp add: n3)
       apply (simp add: demo_env_def net_timeout_then_bad_family_def net_silent_def demo_world_def)
      apply (simp add: demo_env_def net_timeout_then_bad_family_def net_bad_family_def demo_world_def)
     apply (simp add: demo_env_def token12_def slice_def)
    apply (rule pl)
    done
  from T [THEN conjunct2, rule_format, OF p]
  show "make_request ?e demo_stun (AddrStr ''192.0.2.1'') [] demo_world
     = (Inl (RuntimeError ''Invalid address family: 3''),
        \<lparr>clock = 4,
         trace = [EvSendto [0x00, 0x01, 0x00, 0x00, 0x21, 0x12, 0x21, 0x12, 0xA4, 0x42,
                            1, 2, 3, 4, 5, 6, 7, 8, 9, 10, 11, 12] (''192.0.2.1'', 3478),
                  EvSleep 1,
                  EvSendto [0x00, 0x01, 0x00, 0x00, 0x21, 0x12, 0x21, 0x12, 0xA4, 0x42,
                            1, 2, 3, 4, 5, 6, 7, 8, 9, 10, 11, 12] (''192.0.2.1'', 3478)],
         alive = {}, tasks = {}\<rparr>)"
    by (simp add: demo_stun_def demo_world_def demo_env_def token12_def
          request_msg_def pack_H_def)
qed

text \<open>C7 as stated fails: with three retries configured, a reply with a well-formed header
  and an attribute of address family 3 makes \<open>__make_request\<close> raise after one attempt.\<close>

theorem malformed_attribute_raises:
  "make_request (demo_env gai_fails net_bad_family) demo_stun (AddrStr ''192.0.2.1'') []
     demo_world
   = (Inl (RuntimeError ''Invalid address family: 3''),
      \<lparr>clock = 2,
       trace = [EvSendto [0x00, 0x01, 0x00, 0x00, 0x21, 0x12, 0x21, 0x12, 0xA4, 0x42,
                          1, 2, 3, 4, 5, 6, 7, 8, 9, 10, 11, 12] (''192.0.2.1'', 3478)],
       alive = {}, tasks = {}\<rparr>)"
  by code_simp

section \<open>The probe\<close>

lemma retried_returns:
  assumes "1 \<le> s_retries s"
  shows "\<exists>r w'. retried_getaddrinfo_udp e s h p w = Some (r, w')"
proof -
  from assms obtain m where m: "nat (s_retries s) = Suc m" by (cases "nat (s_retries s)") auto
  from retried_loop_returns [OF assms m, of e "s_retries_delay s" h p w]
  show ?thesis unfolding retried_getaddrinfo_udp_def by blast
qed

lemma with_socket_config:
  "with_socket e s fam addr a w = (r, s1, w1) \<Longrightarrow>
     s_host s1 = s_host s \<and> s_port s1 = s_port s \<and> s_stun_ip s1 = s_stun_ip s"
  by (auto simp: with_socket_def Let_def split: option.splits sum.splits prod.splits if_splits)

lemma get_info_try_returns:
  assumes "1 \<le> s_retries s"
  shows "\<exists>r s1 w1. get_info_try e s a p w = Some (r, s1, w1)
           \<and> s_host s1 = s_host s \<and> s_port s1 = s_port s"
proof -
  from retried_returns [OF assms] obtain r1 w1 where
    r1: "retried_getaddrinfo_udp e s a p w = Some (r1, w1)" by blast
  show ?thesis
  proof (cases r1)
    case (Inl x)
    with r1 show ?thesis by (simp add: get_info_try_def)
  next
    case (Inr infos1)
    show ?thesis
    proof (cases infos1)
      case Nil
      with r1 Inr show ?thesis by (simp add: get_info_try_def)
    next
      case (Cons i rest)
      from retried_returns [OF assms] obtain r2 w2 where
        r2: "retried_getaddrinfo_udp e s (s_host s) (s_port s) w1 = Some (r2, w2)" by blast
      show ?thesis
      proof (cases r2)
        case (Inl x)
        with r1 r2 Inr Cons show ?thesis by (simp add: get_info_try_def)
      next
        case inr2: (Inr infos)
        let ?ips = "map (\<lambda>i. fst (ai_addr i)) (filter (\<lambda>j. ai_family j = ai_family i) infos)"
        show ?thesis
        proof (cases ?ips)
          case Nil
          with r1 r2 Inr Cons inr2 show ?thesis by (simp add: get_info_try_def Let_def)
        next
          case ips: (Cons first_ip others)
          let ?s = "if s_stun_ip s = [] \<or> s_stun_ip s \<notin> set ?ips
                    then s\<lparr>s_stun_ip := first_ip\<rparr> else s"
          obtain r s1 w3 where ws: "with_socket e ?s (ai_family i) (ai_addr i) a w2 = (r, s1, w3)"
            by (cases "with_socket e ?s (ai_family i) (ai_addr i) a w2") auto
          from with_socket_config [OF ws] have "s_host s1 = s_host s \<and> s_port s1 = s_port s"
            by (simp split: if_splits)
          moreover have "get_info_try e s a p w = Some (r, s1, w3)"
            using r1 r2 Inr Cons inr2 ips ws by (simp add: get_info_try_def Let_def)
          ultimately show ?thesis by blast
        qed
      qed
    qed
  qed
qed

lemma get_info_returns:
  assumes "1 \<le> s_retries s"
  shows "\<exists>info s' w'. get_info e s a p w = Some (info, s', w')
           \<and> StunInfo.stun_host info = s_host s \<and> StunInfo.stun_port info = s_port s
           \<and> StunInfo.src_ip info = a \<and> s_sock s' = None
           \<and> (\<forall>x s1 w1. get_info_try e s a p w = Some (Inl x, s1, w1) \<longrightarrow>
                 StunInfo.nat_type info = ERROR \<and> StunInfo.ext_ip info = [])"
proof -
  from get_info_try_returns [OF assms] obtain r s1 w1 where
    t: "get_info_try e s a p w = Some (r, s1, w1)" "s_host s1 = s_host s" "s_port s1 = s_port s"
    by blast
  then show ?thesis
    by (cases r) (auto simp: get_info_def Let_def split: prod.splits)
qed

text \<open>
  C3. With \<open>retries \<ge> 1\<close> configured, \<open>get_info\<close> returns a \<open>StunInfo\<close> for every \<open>src_ip\<close> and
  \<open>src_port\<close>: no exception leaves it. The \<open>stun_host\<close> and \<open>stun_port\<close> returned are the
  configured ones, the \<open>src_ip\<close> returned is the argument, and the socket attribute is
  cleared. Whenever the \<open>try\<close> block raised (a failed resolution, no candidate of the
  family, a socket error, an error of the dialogue), the result has \<open>nat_type = ERROR\<close> and
  an empty \<open>ext_ip\<close>.
\<close>

theorem get_info_never_raises:
  assumes "1 \<le> s_retries s"
  shows "\<exists>info s' w'. get_info e s src_ip_arg src_port w = Some (info, s', w')
           \<and> StunInfo.stun_host info = s_host s \<and> StunInfo.stun_port info = s_port s
           \<and> StunInfo.src_ip info = src_ip_arg \<and> s_sock s' = None
           \<and> (\<forall>x s1 w1. get_info_try e s src_ip_arg src_port w = Some (Inl x, s1, w1) \<longrightarrow>
                 StunInfo.nat_type info = ERROR \<and> StunInfo.ext_ip info = [])"
  using assms by (rule get_info_returns)

theorem get_info_never_raises_witness:
  "\<exists>s' w'. get_info (demo_env gai_mismatch net_silent) demo_stun ''10.0.0.5'' 0 demo_world
      = Some (\<lparr>StunInfo.nat_type = ERROR, StunInfo.src_ip = ''10.0.0.5'', StunInfo.ext_ip = [],
               StunInfo.stun_host = ''stun.example.org'', StunInfo.stun_ip = ''192.0.2.1'',
               StunInfo.stun_port = 3478\<rparr>, s', w')"
proof -
  let ?e = "demo_env gai_mismatch net_silent"
  have pos: "1 \<le> s_retries demo_stun" by (simp add: demo_stun_def)
  have "\<exists>x s1 w1. get_info_try ?e demo_stun ''10.0.0.5'' 0 demo_world = Some (Inl x, s1, w1)
          \<and> s_stun_ip s1 = ''192.0.2.1''"
    by (simp add: get_info_try_def retried_getaddrinfo_udp_def retried_loop.simps demo_env_def
          gai_mismatch_def demo_stun_def)
  then obtain x s1 w1 where
    t: "get_info_try ?e demo_stun ''10.0.0.5'' 0 demo_world = Some (Inl x, s1, w1)"
       "s_stun_ip s1 = ''192.0.2.1''"
    by blast
  from get_info_never_raises [OF pos, of ?e "''10.0.0.5''" 0 demo_world] obtain info s' w' where
    i: "get_info ?e demo_stun ''10.0.0.5'' 0 demo_world = Some (info, s', w')"
       "StunInfo.stun_host info = s_host demo_stun" "StunInfo.stun_port info = s_port demo_stun"
       "StunInfo.src_ip info = ''10.0.0.5''"
       "\<forall>x s1 w1. get_info_try ?e demo_stun ''10.0.0.5'' 0 demo_world = Some (Inl x, s1, w1) \<longrightarrow>
                 StunInfo.nat_type info = ERROR \<and> StunInfo.ext_ip info = []"
    by blast
  from i(5) t(1) have err: "StunInfo.nat_type info = ERROR" "StunInfo.ext_ip info = []" by blast+
  from i(1) t have sip: "StunInfo.stun_ip info = ''192.0.2.1''"
    by (auto simp: get_info_def Let_def)
  have "info = \<lparr>StunInfo.nat_type = ERROR, StunInfo.src_ip = ''10.0.0.5'', StunInfo.ext_ip = [],
               StunInfo.stun_host = ''stun.example.org'', StunInfo.stun_ip = ''192.0.2.1'',
               StunInfo.stun_port = 3478\<rparr>"
    using i(2,3,4) err sip by (cases info) (simp add: demo_stun_def)
  with i(1) show ?thesis by blast
qed

section \<open>The supervisor's decision\<close>

text \<open>What a stop does, and what a start does once no task is held.\<close>

lemma stop_live777_result:
  "stop_live777 r w =
     (r\<lparr>r_live777_proc := None, r_live777_task := None\<rparr>,
      w\<lparr>clock := clock w + (case r_live777_task r of Some t \<Rightarrow> 1 | None \<Rightarrow> 0)
                        + (case r_live777_proc r of Some pid \<Rightarrow> 1 | None \<Rightarrow> 0),
        trace := trace w @ [EvStopLive777]
                 @ (case r_live777_task r of Some t \<Rightarrow> [EvCancelTask (task_id t)] | None \<Rightarrow> [])
                 @ (case r_live777_proc r of Some pid \<Rightarrow> [EvKillProcess pid] | None \<Rightarrow> []),
        alive := alive w - set_option (r_live777_proc r),
        tasks := tasks w - task_id ` set_option (r_live777_task r)\<rparr>)"
  by (cases "r_live777_task r"; cases "r_live777_proc r")
     (simp_all add: stop_live777_def kill_live777_proc_def kill_process_def cancel_and_gather_def
        record_call_def tick_def Let_def)

lemma start_after_stop:
  "r_live777_task r = None \<Longrightarrow>
   start_live777 r netcfg w =
     (Inr (),
      r\<lparr>r_live777_task := Some \<lparr>task_id = clock w, task_netcfg = netcfg, task_pc = AtLaunch\<rparr>\<rparr>,
      w\<lparr>clock := clock w + 1,
        trace := trace w @ [EvStartLive777 netcfg, EvCreateTask (clock w)],
        tasks := insert (clock w) (tasks w)\<rparr>)"
  by (simp add: start_live777_def record_call_def tick_def Let_def)

lemma calls_of_stop:
  "filter is_call (case t of Some t \<Rightarrow> [EvCancelTask (task_id t)] | None \<Rightarrow> []) = []"
  "filter is_call (case p of Some pid \<Rightarrow> [EvKillProcess pid] | None \<Rightarrow> []) = []"
  by (cases t; simp) (cases p; simp)

lemma supervise_cases:
  "supervise r a b w =
     (if Some b = a then (Inr (), r, a, w)
      else if src_ip b = [] then (Inr (), fst (stop_live777 r w), Some b, snd (stop_live777 r w))
      else (Inr (),
            (fst (stop_live777 r w))\<lparr>r_live777_task :=
               Some \<lparr>task_id = clock (snd (stop_live777 r w)), task_netcfg = b, task_pc = AtLaunch\<rparr>\<rparr>,
            Some b,
            (snd (stop_live777 r w))\<lparr>clock := clock (snd (stop_live777 r w)) + 1,
               trace := trace (snd (stop_live777 r w)) @ [EvStartLive777 b, EvCreateTask (clock (snd (stop_live777 r w)))],
               tasks := insert (clock (snd (stop_live777 r w))) (tasks (snd (stop_live777 r w)))\<rparr>))"
proof -
  obtain r1 w1 where st: "stop_live777 r w = (r1, w1)" by (cases "stop_live777 r w") auto
  then have t: "r_live777_task r1 = None" by (auto simp: stop_live777_result)
  show ?thesis
    by (simp add: supervise_def st start_after_stop [OF t])
qed

lemma supervise_calls:
  "supervisor_calls w (snd (snd (snd (supervise r a b w)))) =
     (if Some b = a then [] else if src_ip b = [] then [EvStopLive777]
      else [EvStopLive777, EvStartLive777 b])"
  by (simp add: supervise_cases supervisor_calls_def stop_live777_result calls_of_stop)

text \<open>
  C4. In an iteration with the remembered configuration \<open>a\<close> (\<open>None\<close> at first) and the
  probed configuration \<open>b\<close>: the supervisor calls stop and then start with \<open>b\<close> exactly when
  \<open>b\<close> differs from \<open>a\<close> and \<open>b.src_ip\<close> is not empty, after which it holds a task for \<open>b\<close>;
  it calls stop alone exactly when \<open>b\<close> differs from \<open>a\<close> and \<open>b.src_ip\<close> is empty, after which
  it holds neither task nor child; it calls neither exactly when \<open>b\<close> equals \<open>a\<close>, and then
  nothing changes. No exception is raised, and \<open>b\<close> is the configuration remembered.
\<close>

theorem supervise_decision:
  "(case supervise r a b w of (res, r', prev', w') \<Rightarrow>
      (supervisor_calls w w' = [EvStopLive777, EvStartLive777 b] \<longleftrightarrow> Some b \<noteq> a \<and> src_ip b \<noteq> [])
    \<and> (supervisor_calls w w' = [EvStopLive777] \<longleftrightarrow> Some b \<noteq> a \<and> src_ip b = [])
    \<and> (supervisor_calls w w' = [] \<longleftrightarrow> Some b = a)
    \<and> res = Inr () \<and> prev' = Some b
    \<and> (Some b \<noteq> a \<and> src_ip b \<noteq> [] \<longrightarrow>
          map_option task_netcfg (r_live777_task r') = Some b \<and> r_live777_proc r' = None)
    \<and> (Some b \<noteq> a \<and> src_ip b = [] \<longrightarrow> r_live777_task r' = None \<and> r_live777_proc r' = None)
    \<and> (Some b = a \<longrightarrow> r' = r \<and> w' = w))"
proof -
  obtain res r' prev' w' where s: "supervise r a b w = (res, r', prev', w')"
    by (cases "supervise r a b w") auto
  from supervise_calls [of w r a b] s have c: "supervisor_calls w w' =
     (if Some b = a then [] else if src_ip b = [] then [EvStopLive777]
      else [EvStopLive777, EvStartLive777 b])" by simp
  from s have rest: "res = Inr ()" "prev' = Some b"
    "Some b \<noteq> a \<and> src_ip b \<noteq> [] \<longrightarrow>
          map_option task_netcfg (r_live777_task r') = Some b \<and> r_live777_proc r' = None"
    "Some b \<noteq> a \<and> src_ip b = [] \<longrightarrow> r_live777_task r' = None \<and> r_live777_proc r' = None"
    "Some b = a \<longrightarrow> r' = r \<and> w' = w"
    by (auto simp: supervise_cases stop_live777_result split: if_splits)
  show ?thesis
    unfolding s using c rest by (simp split: if_splits)
qed


theorem supervise_decision_witness:
  "supervisor_calls demo_world (snd (snd (snd (supervise demo_runner None demo_netcfg demo_world))))
     = [EvStopLive777, EvStartLive777 demo_netcfg]
   \<and> supervisor_calls demo_world
       (snd (snd (snd (supervise demo_runner None (demo_netcfg\<lparr>src_ip := []\<rparr>) demo_world))))
     = [EvStopLive777]
   \<and> supervisor_calls demo_world
       (snd (snd (snd (supervise demo_runner (Some demo_netcfg) demo_netcfg demo_world)))) = []"
proof (intro conjI)
  show "supervisor_calls demo_world (snd (snd (snd (supervise demo_runner None demo_netcfg demo_world))))
     = [EvStopLive777, EvStartLive777 demo_netcfg]"
    using supervise_decision [where r = demo_runner and a = None and b = demo_netcfg and w = demo_world]
    by (auto simp: demo_netcfg_def split: prod.splits)
  show "supervisor_calls demo_world
       (snd (snd (snd (supervise demo_runner None (demo_netcfg\<lparr>src_ip := []\<rparr>) demo_world))))
     = [EvStopLive777]"
    using supervise_decision [where r = demo_runner and a = None and b = "demo_netcfg\<lparr>src_ip := []\<rparr>"
            and w = demo_world]
    by (auto simp: demo_netcfg_def split: prod.splits)
  show "supervisor_calls demo_world
       (snd (snd (snd (supervise demo_runner (Some demo_netcfg) demo_netcfg demo_world)))) = []"
    using supervise_decision [where r = demo_runner and a = "Some demo_netcfg" and b = demo_netcfg
            and w = demo_world]
    by (auto split: prod.splits)
qed

section \<open>One task, one child\<close>

text \<open>The probe touches neither the children nor the tasks.\<close>

lemma tick_children [simp]: "alive (tick ev w) = alive w" "tasks (tick ev w) = tasks w"
  by (simp_all add: tick_def)

lemma sleep_children [simp]: "alive (sleep d w) = alive w" "tasks (sleep d w) = tasks w"
  by (simp_all add: sleep_def)

lemma inner_make_request_children:
  "inner_make_request e s tid req addr w = (r, w') \<Longrightarrow> alive w' = alive w \<and> tasks w' = tasks w"
  by (auto simp: inner_make_request_def Let_def split: if_splits reply.splits)

lemma attempts_children:
  "attempts e s tid req addr n cur w = (r, w') \<Longrightarrow> alive w' = alive w \<and> tasks w' = tasks w"
proof (induction n arbitrary: cur w)
  case 0
  then show ?case by auto
next
  case (Suc n)
  obtain r1 w1 where i: "inner_make_request e s tid req addr w = (r1, w1)"
    by (cases "inner_make_request e s tid req addr w") auto
  note f = inner_make_request_children [OF i]
  show ?case
  proof (cases r1)
    case (Inl x)
    with Suc.prems i f show ?thesis by simp
  next
    case (Inr p)
    obtain resp err where p: "p = (resp, err)" by (cases p)
    show ?thesis
    proof (cases "err = []")
      case True
      with Suc.prems i f Inr p show ?thesis by simp
    next
      case False
      with Suc.prems i Inr p
      have "attempts e s tid req addr n (resp, err) (sleep (s_retries_delay s) w1) = (r, w')"
        by simp
      from Suc.IH [OF this] f show ?thesis by simp
    qed
  qed
qed

lemma make_request_children:
  "make_request e s addr req w = (r, w') \<Longrightarrow> alive w' = alive w \<and> tasks w' = tasks w"
proof -
  assume a: "make_request e s addr req w = (r, w')"
  let ?addr_t = "case addr of AddrStun a \<Rightarrow> (ip a, port a) | AddrStr h \<Rightarrow> (h, s_port s)"
  let ?tid = "[0x21, 0x12, 0xA4, 0x42] @ token12 e (clock w)"
  obtain r1 w1 where at: "attempts e s ?tid req ?addr_t (nat (s_retries s)) ([], [])
                            (w\<lparr>clock := clock w + 1\<rparr>) = (r1, w1)"
    by (cases "attempts e s ?tid req ?addr_t (nat (s_retries s)) ([], []) (w\<lparr>clock := clock w + 1\<rparr>)")
       auto
  from attempts_children [OF at] have f: "alive w1 = alive w \<and> tasks w1 = tasks w" by simp
  from a at have "w' = w1"
    by (auto simp: make_request_def Let_def split: sum.splits prod.splits if_splits)
  with f show ?thesis by simp
qed

lemma get_nat_type_children:
  "get_nat_type e s a w = (r, w') \<Longrightarrow> alive w' = alive w \<and> tasks w' = tasks w"
proof -
  assume g: "get_nat_type e s a w = (r, w')"
  obtain r1 w1 where m1: "make_request e s (AddrStr (s_stun_ip s)) [] w = (r1, w1)"
    by (cases "make_request e s (AddrStr (s_stun_ip s)) [] w") auto
  note f1 = make_request_children [OF m1]
  obtain r2 w2 where m2: "make_request e s (AddrStr (s_stun_ip s))
        (pack_H 0x0003 @ pack_H 0x0004 @ pack_I 0x00000006) w1 = (r2, w2)"
    by (cases "make_request e s (AddrStr (s_stun_ip s))
        (pack_H 0x0003 @ pack_H 0x0004 @ pack_I 0x00000006) w1") auto
  note f2 = make_request_children [OF m2]
  have f3: "alive w3 = alive w \<and> tasks w3 = tasks w"
    if "make_request e s (AddrStun ch) [] w2 = (r3, w3)" for ch r3 w3
    using make_request_children [OF that] f1 f2 by simp
  have f4: "alive w4 = alive w \<and> tasks w4 = tasks w"
    if "make_request e s (AddrStun ch) [] w2 = (r3, w3)"
       "make_request e s (AddrStr h) (pack_H 0x0003 @ pack_H 0x0004 @ pack_I 0x00000002) w3 = (r4, w4)"
    for ch r3 w3 h r4 w4
    using make_request_children [OF that(2)] f3 [OF that(1)] by simp
  from g m1 m2 f1 f2 show ?thesis
    unfolding get_nat_type_def Let_def
    by (auto split: sum.splits prod.splits if_splits option.splits dest: f3 f4)
qed


lemma with_socket_children:
  "with_socket e s fam addr a w = (r, s1, w') \<Longrightarrow> alive w' = alive w \<and> tasks w' = tasks w"
proof -
  assume ws: "with_socket e s fam addr a w = (r, s1, w')"
  have g: "alive w2 = alive w \<and> tasks w2 = tasks w"
    if "get_nat_type e (s\<lparr>s_sock := Some fam\<rparr>) a (tick (EvBind addr) (tick (EvSocket fam) w)) = (r2, w2)"
    for r2 w2
    using get_nat_type_children [OF that] by simp
  from ws show ?thesis
    unfolding with_socket_def Let_def
    by (auto split: option.splits if_splits sum.splits prod.splits dest: g)
qed

lemma retried_loop_children:
  assumes "retried_loop e d h p n w = Some (r, w')"
  shows "alive w' = alive w \<and> tasks w' = tasks w"
proof -
  have "alive (snd y) = alive w0 \<and> tasks (snd y) = tasks w0"
    if a: "retried_loop e0 d0 h0 p0 n0 w0 = Some y" for e0 d0 h0 p0 n0 w0 y
  proof (rule retried_loop.raw_induct
          [where P = "\<lambda>e d h p n w y. alive (snd y) = alive w \<and> tasks (snd y) = tasks w", OF _ a])
    fix f and e' :: env and d' :: real and h' :: string and p' :: int and n' :: int
      and w1 :: world and y1 :: "(error + addrinfo list) \<times> world"
    assume ih: "\<And>e d h p n w y. f e d h p n w = Some y \<Longrightarrow>
                  alive (snd y) = alive w \<and> tasks (snd y) = tasks w"
      and eq: "(case getaddrinfo e' (clock w1) h' p' of
                  Inl x \<Rightarrow> if n' - 1 = 0 then Some (Inl x, tick (EvGetaddrinfo h' p') w1)
                           else f e' d' h' p' (n' - 1) (sleep d' (tick (EvGetaddrinfo h' p') w1))
                | Inr res \<Rightarrow> Some (Inr res, tick (EvGetaddrinfo h' p') w1)) = Some y1"
    show "alive (snd y1) = alive w1 \<and> tasks (snd y1) = tasks w1"
    proof (cases "getaddrinfo e' (clock w1) h' p'")
      case (Inr res)
      with eq show ?thesis by auto
    next
      case (Inl x)
      show ?thesis
      proof (cases "n' - 1 = 0")
        case True
        with eq Inl show ?thesis by auto
      next
        case False
        with eq Inl have "f e' d' h' p' (n' - 1) (sleep d' (tick (EvGetaddrinfo h' p') w1)) = Some y1"
          by simp
        from ih [OF this] show ?thesis by simp
      qed
    qed
  qed
  from this [OF assms] show ?thesis by simp
qed

lemma retried_children:
  "retried_getaddrinfo_udp e s h p w = Some (x, w1) \<Longrightarrow> alive w1 = alive w \<and> tasks w1 = tasks w"
  unfolding retried_getaddrinfo_udp_def by (rule retried_loop_children)

lemma get_info_try_children:
  assumes t: "get_info_try e s a p w = Some (r, s1, w')"
  shows "alive w' = alive w \<and> tasks w' = tasks w"
proof (cases "retried_getaddrinfo_udp e s a p w")
  case None
  with t show ?thesis by (simp add: get_info_try_def)
next
  case (Some y1)
  obtain x1 w1 where y1: "y1 = (x1, w1)" by (cases y1)
  note f1 = retried_children [OF Some [unfolded y1]]
  show ?thesis
  proof (cases x1)
    case (Inl x)
    with t Some y1 f1 show ?thesis by (simp add: get_info_try_def)
  next
    case (Inr infos1)
    show ?thesis
    proof (cases infos1)
      case Nil
      with t Some y1 f1 Inr show ?thesis by (simp add: get_info_try_def)
    next
      case (Cons i rest)
      show ?thesis
      proof (cases "retried_getaddrinfo_udp e s (s_host s) (s_port s) w1")
        case None
        with t Some y1 Inr Cons show ?thesis by (simp add: get_info_try_def)
      next
        case some2: (Some y2)
        obtain x2 w2 where y2: "y2 = (x2, w2)" by (cases y2)
        note f2 = retried_children [OF some2 [unfolded y2]]
        show ?thesis
        proof (cases x2)
          case (Inl x)
          with t Some y1 Inr Cons some2 y2 f1 f2 show ?thesis by (simp add: get_info_try_def)
        next
          case inr2: (Inr infos)
          let ?ips = "map (\<lambda>i. fst (ai_addr i)) (filter (\<lambda>j. ai_family j = ai_family i) infos)"
          show ?thesis
          proof (cases ?ips)
            case Nil
            with t Some y1 Inr Cons some2 y2 inr2 f1 f2 show ?thesis
              by (simp add: get_info_try_def Let_def)
          next
            case ips: (Cons first_ip others)
            let ?s = "if s_stun_ip s = [] \<or> s_stun_ip s \<notin> set ?ips
                      then s\<lparr>s_stun_ip := first_ip\<rparr> else s"
            from t Some y1 Inr Cons some2 y2 inr2 ips
            have "with_socket e ?s (ai_family i) (ai_addr i) a w2 = (r, s1, w')"
              by (simp add: get_info_try_def Let_def)
            from with_socket_children [OF this] f1 f2 show ?thesis by simp
          qed
        qed
      qed
    qed
  qed
qed

lemma get_info_children:
  assumes "get_info e s a p w = Some (info, s1, w')"
  shows "alive w' = alive w \<and> tasks w' = tasks w"
  using assms get_info_try_children
  by (fastforce simp: get_info_def Let_def split: option.splits prod.splits)

lemma get_netcfg_frame:
  assumes "get_netcfg e r w = Some (netcfg, r1, w')"
  shows "alive w' = alive w \<and> tasks w' = tasks w
         \<and> r_live777_task r1 = r_live777_task r \<and> r_live777_proc r1 = r_live777_proc r"
proof -
  obtain found w1 where d: "get_default_ip e w = (found, w1)" by (cases "get_default_ip e w") auto
  then have w1: "alive w1 = alive w \<and> tasks w1 = tasks w"
    by (auto simp: get_default_ip_def Let_def)
  from assms d show ?thesis
    using w1 by (auto simp: get_netcfg_def Let_def split: option.splits dest!: get_info_children)
qed

text \<open>Every step of a supervisor keeps the children and the tasks tracked.\<close>

lemma tracked_stop: "tracked st \<Longrightarrow> tracked (stop_live777 (fst st) (snd st))"
  by (auto simp: tracked_def stop_live777_result)

lemma tracked_start: "tracked (r, w) \<Longrightarrow> tracked (snd (start_live777 r netcfg w))"
  by (auto simp: tracked_def start_live777_def record_call_def tick_def Let_def)

lemma tracked_probe: "tracked (r, w) \<Longrightarrow> get_netcfg e r w = Some (netcfg, r1, w1) \<Longrightarrow> tracked (r1, w1)"
  by (drule get_netcfg_frame) (simp add: tracked_def)

lemma task_id_set_pc [simp]:
  "task_id ` set_option (r_live777_task (set_pc pc r)) = task_id ` set_option (r_live777_task r)"
  "r_live777_proc (set_pc pc r) = r_live777_proc r"
  by (cases "r_live777_task r"; simp add: set_pc_def)+

lemma tracked_set_pc: "tracked (r, w) \<Longrightarrow> tracked (set_pc pc r, w)"
  by (simp add: tracked_def)

lemma tracked_start_proc:
  "tracked (r, w) \<Longrightarrow> start_live777_proc e r netcfg w = (res, r1, w1) \<Longrightarrow> tracked (r1, w1)"
  by (auto simp: tracked_def start_live777_proc_def split: if_splits sum.splits)

lemma tracked_kill:
  "tracked (r, w) \<Longrightarrow> kill_live777_proc r w = (r1, w1) \<Longrightarrow> tracked (r1, w1)"
  by (auto simp: tracked_def kill_live777_proc_def kill_process_def split: option.splits)

lemma tracked_task_step: "tracked (r, w) \<Longrightarrow> tracked (task_step e r w)"
proof (cases "r_live777_task r")
  case None
  then show "tracked (r, w) \<Longrightarrow> ?thesis" by (simp add: task_step_def)
next
  case (Some t)
  assume tr: "tracked (r, w)"
  show ?thesis
  proof (cases "task_pc t")
    case AtLaunch
    obtain res r1 w1 where sp: "start_live777_proc e r (task_netcfg t) w = (res, r1, w1)"
      by (cases "start_live777_proc e r (task_netcfg t) w") auto
    from tracked_start_proc [OF tr sp] have "tracked (r1, w1)" .
    then show ?thesis using Some AtLaunch sp
      by (cases res) (simp_all add: task_step_def tracked_set_pc)
  next
    case AtTail
    with Some tr show ?thesis by (simp add: task_step_def tracked_set_pc)
  next
    case AtKill
    obtain r1 w1 where k: "kill_live777_proc r w = (r1, w1)"
      by (cases "kill_live777_proc r w") auto
    from tracked_kill [OF tr k] Some AtKill k show ?thesis
      by (simp add: task_step_def tracked_set_pc)
  next
    case AtSleep
    with Some tr show ?thesis by (simp add: task_step_def tracked_def)
  qed
qed

lemma tracked_apply_event: "tracked st \<Longrightarrow> tracked (apply_event e ev st)"
proof (cases st)
  case (Pair r w)
  assume tr: "tracked st"
  show ?thesis
  proof (cases ev)
    case DoStop
    with tracked_stop [OF tr] Pair show ?thesis by simp
  next
    case (DoStart netcfg)
    with tracked_start tr Pair show ?thesis by simp
  next
    case DoProbe
    with tr Pair show ?thesis by (auto split: option.splits dest: tracked_probe)
  next
    case TaskStep
    with tracked_task_step tr Pair show ?thesis by simp
  next
    case (ChildExit pid)
    with tr Pair show ?thesis by (auto simp: tracked_def child_exit_def)
  qed
qed

lemma tracked_run_events: "tracked st \<Longrightarrow> tracked (run_events e evs st)"
  by (induction evs arbitrary: st) (simp_all add: tracked_apply_event)

lemma initial_tracked: "initial st \<Longrightarrow> tracked st"
  by (simp add: initial_def tracked_def)

lemma tracked_at_most_one:
  assumes "tracked (r, w)"
  shows "card (alive w) \<le> 1 \<and> card (tasks w) \<le> 1"
proof -
  have a: "card (set_option (r_live777_proc r)) \<le> 1" by (cases "r_live777_proc r") simp_all
  have b: "card (task_id ` set_option (r_live777_task r)) \<le> 1"
    by (cases "r_live777_task r") simp_all
  from assms have "card (alive w) \<le> card (set_option (r_live777_proc r))"
    by (intro card_mono) (simp_all add: tracked_def)
  moreover from assms have "card (tasks w) \<le> card (task_id ` set_option (r_live777_task r))"
    by (intro card_mono) (simp_all add: tracked_def)
  ultimately show ?thesis using a b by linarith
qed

text \<open>
  C9. \<open>__stop_live777\<close> cancels the supervisory task if there is one and waits for it to
  end, then kills the child if one is held, whether or not there was a task, and leaves
  both handles \<open>None\<close>. From a supervisor with no task and no child, whatever sequence of
  stops, starts, probes, task steps and child exits follows, at most one child is alive and
  at most one task is unfinished, each the one the supervisor holds; and a stop at that
  point leaves no handle, no child alive and no task unfinished.
\<close>

theorem stop_clears_the_one_child:
  "stop_live777 r w =
     (r\<lparr>r_live777_proc := None, r_live777_task := None\<rparr>,
      w\<lparr>clock := clock w + (case r_live777_task r of Some t \<Rightarrow> 1 | None \<Rightarrow> 0)
                        + (case r_live777_proc r of Some pid \<Rightarrow> 1 | None \<Rightarrow> 0),
        trace := trace w @ [EvStopLive777]
                 @ (case r_live777_task r of Some t \<Rightarrow> [EvCancelTask (task_id t)] | None \<Rightarrow> [])
                 @ (case r_live777_proc r of Some pid \<Rightarrow> [EvKillProcess pid] | None \<Rightarrow> []),
        alive := alive w - set_option (r_live777_proc r),
        tasks := tasks w - task_id ` set_option (r_live777_task r)\<rparr>)
   \<and> (initial st \<longrightarrow>
        (case run_events e evs st of (r1, w1) \<Rightarrow>
           alive w1 \<subseteq> set_option (r_live777_proc r1)
         \<and> tasks w1 \<subseteq> task_id ` set_option (r_live777_task r1)
         \<and> card (alive w1) \<le> 1 \<and> card (tasks w1) \<le> 1
         \<and> (case stop_live777 r1 w1 of (r2, w2) \<Rightarrow>
               r_live777_task r2 = None \<and> r_live777_proc r2 = None
             \<and> alive w2 = {} \<and> tasks w2 = {})))"
proof (intro conjI impI)
  show "stop_live777 r w =
     (r\<lparr>r_live777_proc := None, r_live777_task := None\<rparr>,
      w\<lparr>clock := clock w + (case r_live777_task r of Some t \<Rightarrow> 1 | None \<Rightarrow> 0)
                        + (case r_live777_proc r of Some pid \<Rightarrow> 1 | None \<Rightarrow> 0),
        trace := trace w @ [EvStopLive777]
                 @ (case r_live777_task r of Some t \<Rightarrow> [EvCancelTask (task_id t)] | None \<Rightarrow> [])
                 @ (case r_live777_proc r of Some pid \<Rightarrow> [EvKillProcess pid] | None \<Rightarrow> []),
        alive := alive w - set_option (r_live777_proc r),
        tasks := tasks w - task_id ` set_option (r_live777_task r)\<rparr>)"
    by (rule stop_live777_result)
next
  assume i: "initial st"
  obtain r1 w1 where rw: "run_events e evs st = (r1, w1)" by (cases "run_events e evs st") auto
  from tracked_run_events [OF initial_tracked [OF i], of e evs] rw have tr: "tracked (r1, w1)"
    by simp
  from tracked_at_most_one [OF tr] have c: "card (alive w1) \<le> 1 \<and> card (tasks w1) \<le> 1" .
  from tr have s: "alive w1 \<subseteq> set_option (r_live777_proc r1)"
    "tasks w1 \<subseteq> task_id ` set_option (r_live777_task r1)"
    by (simp_all add: tracked_def)
  show "case run_events e evs st of (r1, w1) \<Rightarrow>
           alive w1 \<subseteq> set_option (r_live777_proc r1)
         \<and> tasks w1 \<subseteq> task_id ` set_option (r_live777_task r1)
         \<and> card (alive w1) \<le> 1 \<and> card (tasks w1) \<le> 1
         \<and> (case stop_live777 r1 w1 of (r2, w2) \<Rightarrow>
               r_live777_task r2 = None \<and> r_live777_proc r2 = None
             \<and> alive w2 = {} \<and> tasks w2 = {})"
    unfolding rw using c s by (auto simp: stop_live777_result)
qed

lemma apply_event_stop: "apply_event e DoStop st = stop_live777 (fst st) (snd st)"
  by (cases st) simp

lemma run_events_snoc: "run_events e (evs @ [ev]) st = apply_event e ev (run_events e evs st)"
  by (induction evs arbitrary: st) simp_all

theorem stop_clears_the_one_child_witness:
  "initial (demo_runner, demo_world)
   \<and> r_live777_proc (fst (run_events (demo_env gai_v4 net_silent) [DoStart demo_netcfg, TaskStep]
          (demo_runner, demo_world))) = Some 4242
   \<and> card (alive (snd (run_events (demo_env gai_v4 net_silent) [DoStart demo_netcfg, TaskStep]
          (demo_runner, demo_world)))) \<le> 1
   \<and> r_live777_proc (fst (run_events (demo_env gai_v4 net_silent)
          [DoStart demo_netcfg, TaskStep, DoStop] (demo_runner, demo_world))) = None
   \<and> alive (snd (run_events (demo_env gai_v4 net_silent)
          [DoStart demo_netcfg, TaskStep, DoStop] (demo_runner, demo_world))) = {}"
proof -
  let ?e = "demo_env gai_v4 net_silent"
  let ?st = "(demo_runner, demo_world)"
  let ?evs = "[DoStart demo_netcfg, TaskStep]"
  have i: "initial ?st" by (simp add: initial_def demo_runner_def demo_world_def)
  have p: "r_live777_proc (fst (run_events ?e ?evs ?st)) = Some 4242" by code_simp
  have split: "run_events ?e [DoStart demo_netcfg, TaskStep, DoStop] ?st
               = stop_live777 (fst (run_events ?e ?evs ?st)) (snd (run_events ?e ?evs ?st))"
    using run_events_snoc [of ?e ?evs DoStop ?st] by (simp only: apply_event_stop append.simps)
  from stop_clears_the_one_child [where st = ?st and e = ?e and evs = ?evs, THEN conjunct2,
         rule_format, OF i]
  have "card (alive (snd (run_events ?e ?evs ?st))) \<le> 1
      \<and> r_live777_proc (fst (stop_live777 (fst (run_events ?e ?evs ?st))
                                           (snd (run_events ?e ?evs ?st)))) = None
      \<and> alive (snd (stop_live777 (fst (run_events ?e ?evs ?st))
                                           (snd (run_events ?e ?evs ?st)))) = {}"
    by (auto split: prod.splits)
  with i p split show ?thesis by simp
qed

section \<open>A failed local-address discovery\<close>

text \<open>When \<open>netifaces\<close> raises, \<open>__get_default_ip\<close> returns the empty string; the probe of
  the supervisor returns whenever the resolver loop does, with the \<open>src_ip\<close> it passed on.\<close>

lemma get_default_ip_fails:
  "nif_gateways e (clock w) = Inl x \<Longrightarrow> fst (get_default_ip e w) = []"
  by (simp add: get_default_ip_def default_route_ip_def)

lemma get_netcfg_returns:
  assumes "1 \<le> s_retries (r_stun r)"
  shows "\<exists>netcfg r1 w1. get_netcfg e r w = Some (netcfg, r1, w1)
           \<and> src_ip netcfg = (if fst (get_default_ip e w) = [] then ''0.0.0.0''
                               else fst (get_default_ip e w))"
proof -
  obtain found w0 where d: "get_default_ip e w = (found, w0)" by (cases "get_default_ip e w") auto
  let ?a = "if found = [] then ''0.0.0.0'' else found"
  from get_info_returns [OF assms, of e ?a 0 w0] obtain info s1 w1 where
    i: "get_info e (r_stun r) ?a 0 w0 = Some (info, s1, w1)" "StunInfo.src_ip info = ?a"
    by blast
  then show ?thesis using d
    by (simp add: get_netcfg_def netcfg_of_info_def Let_def)
qed

text \<open>
  C5, as the code has it. When the discovery returns the empty string, \<open>__get_netcfg\<close>
  passes the wildcard 0.0.0.0 to the STUN client instead, so (with \<open>retries \<ge> 1\<close>) the
  configuration it produces has \<open>src_ip = "0.0.0.0"\<close>, which is not empty: when this
  configuration differs from the remembered one, the supervisor stops the child and starts
  a replacement. A configuration whose \<open>src_ip\<close> is empty is what the supervisor treats as
  no network: when it differs from the remembered one, the child is stopped and none is
  started.
\<close>

theorem failed_discovery_gives_wildcard:
  assumes "fst (get_default_ip e w) = []" and "1 \<le> s_retries (r_stun r)"
  shows "(\<exists>netcfg r1 w1. get_netcfg e r w = Some (netcfg, r1, w1) \<and> src_ip netcfg = ''0.0.0.0''
            \<and> (\<forall>prev. Some netcfg \<noteq> prev \<longrightarrow>
                  supervisor_calls w1 (snd (snd (snd (supervise r1 prev netcfg w1))))
                    = [EvStopLive777, EvStartLive777 netcfg]))
       \<and> (\<forall>netcfg prev r0 w0. src_ip netcfg = [] \<and> Some netcfg \<noteq> prev \<longrightarrow>
             supervisor_calls w0 (snd (snd (snd (supervise r0 prev netcfg w0)))) = [EvStopLive777])"
proof
  from get_netcfg_returns [OF assms(2), of e w] assms(1) obtain netcfg r1 w1 where
    g: "get_netcfg e r w = Some (netcfg, r1, w1)" "src_ip netcfg = ''0.0.0.0''"
    by auto
  have "\<forall>prev. Some netcfg \<noteq> prev \<longrightarrow>
          supervisor_calls w1 (snd (snd (snd (supervise r1 prev netcfg w1))))
            = [EvStopLive777, EvStartLive777 netcfg]"
    using g(2) by (simp add: supervise_calls)
  with g show "\<exists>netcfg r1 w1. get_netcfg e r w = Some (netcfg, r1, w1) \<and> src_ip netcfg = ''0.0.0.0''
            \<and> (\<forall>prev. Some netcfg \<noteq> prev \<longrightarrow>
                  supervisor_calls w1 (snd (snd (snd (supervise r1 prev netcfg w1))))
                    = [EvStopLive777, EvStartLive777 netcfg])"
    by blast
next
  show "\<forall>netcfg prev r0 w0. src_ip netcfg = [] \<and> Some netcfg \<noteq> prev \<longrightarrow>
             supervisor_calls w0 (snd (snd (snd (supervise r0 prev netcfg w0)))) = [EvStopLive777]"
    by (simp add: supervise_calls)
qed

theorem failed_discovery_gives_wildcard_witness:
  "\<exists>netcfg r1 w1. get_netcfg (demo_env gai_v4 net_silent) demo_runner demo_world
                     = Some (netcfg, r1, w1)
      \<and> src_ip netcfg = ''0.0.0.0''
      \<and> supervisor_calls w1 (snd (snd (snd (supervise r1 None netcfg w1))))
          = [EvStopLive777, EvStartLive777 netcfg]"
proof -
  let ?e = "demo_env gai_v4 net_silent"
  have d: "fst (get_default_ip ?e demo_world) = []"
    by (simp add: get_default_ip_def default_route_ip_def demo_env_def)
  have p: "1 \<le> s_retries (r_stun demo_runner)" by (simp add: demo_runner_def demo_stun_def)
  from failed_discovery_gives_wildcard [OF d p, THEN conjunct1] show ?thesis by blast
qed

text \<open>C5 as stated fails: with \<open>netifaces\<close> failing, the discovery returns the empty
  string and the configuration probed has the \<open>src_ip\<close> 0.0.0.0.\<close>

theorem failed_discovery_src_ip_not_empty:
  "fst (get_default_ip (demo_env gai_v4 net_silent) demo_world) = []
   \<and> probed_src_ip (demo_env gai_v4 net_silent) demo_runner demo_world = Some ''0.0.0.0''"
proof
  let ?e = "demo_env gai_v4 net_silent"
  show d: "fst (get_default_ip ?e demo_world) = []"
    by (simp add: get_default_ip_def default_route_ip_def demo_env_def)
  have p: "1 \<le> s_retries (r_stun demo_runner)" by (simp add: demo_runner_def demo_stun_def)
  from get_netcfg_returns [OF p, of ?e demo_world] d
  show "probed_src_ip ?e demo_runner demo_world = Some ''0.0.0.0''"
    by (auto simp: probed_src_ip_def)
qed

section \<open>The command line of the child\<close>

text \<open>The loop that removes the bare placeholder is a filter; a token without braces is
  rendered as it stands; each field is rendered by its value.\<close>

lemma filter_remove1_other: "\<not> P x \<Longrightarrow> filter P (remove1 x xs) = filter P xs"
  by (induction xs) auto

lemma remove_while_filter: "remove_while x cmd = filter (\<lambda>t. t \<noteq> x) cmd"
proof (induction x cmd rule: remove_while.induct)
  case (1 x cmd)
  show ?case
  proof (cases "x \<in> set cmd")
    case True
    with 1 have "remove_while x (remove1 x cmd) = filter (\<lambda>t. t \<noteq> x) (remove1 x cmd)" by simp
    also have "\<dots> = filter (\<lambda>t. t \<noteq> x) cmd" by (simp add: filter_remove1_other)
    finally show ?thesis using True by (subst remove_while.simps) simp
  next
    case False
    then have "filter (\<lambda>t. t \<noteq> x) cmd = cmd" by (induction cmd) auto
    with False show ?thesis by (subst remove_while.simps) simp
  qed
qed

lemma py_format_plain:
  "CHR ''{'' \<notin> set t \<Longrightarrow> CHR ''}'' \<notin> set t \<Longrightarrow> py_format m None t = Inr t"
proof (induction t rule: induct_list012)
  case 1
  then show ?case by simp
next
  case (2 c)
  then show ?case by simp
next
  case (3 c d cs)
  then have c: "c \<noteq> CHR ''{''" "c \<noteq> CHR ''}''"
    and rest: "CHR ''{'' \<notin> set (d # cs)" "CHR ''}'' \<notin> set (d # cs)"
    by auto
  from 3(2) [OF rest] c show ?case by simp
qed

lemma format_all_plain:
  "\<forall>t\<in>set ts. CHR ''{'' \<notin> set t \<and> CHR ''}'' \<notin> set t \<Longrightarrow> format_all m ts = Inr ts"
  by (induction ts) (simp_all add: py_format_plain)

lemma py_format_fields:
  "py_format (placeholders netcfg) None ''{o_stun_server}''
     = Inr (''--stun-server='' @ stun_ip netcfg @ '':'' @ str_int (stun_port netcfg))"
  "py_format (placeholders netcfg) None ''{nat_type}'' = Inr (str_nat_type (nat_type netcfg))"
  "py_format (placeholders netcfg) None ''{src_ip}'' = Inr (src_ip netcfg)"
  "py_format (placeholders netcfg) None ''{ext_ip}'' = Inr (ext_ip netcfg)"
  "py_format (placeholders netcfg) None ''{stun_host}'' = Inr (stun_host netcfg)"
  "py_format (placeholders netcfg) None ''{stun_ip}'' = Inr (stun_ip netcfg)"
  "py_format (placeholders netcfg) None ''{stun_port}'' = Inr (str_int (stun_port netcfg))"
  by (simp_all add: placeholders_def)

text \<open>
  C8, as the code has it. For a configuration with an empty \<open>ext_ip\<close>, the placeholder
  \<open>o_stun_server\<close> is the empty string and every token equal to \<open>{o_stun_server}\<close> is removed
  before the substitution: the argv is the rendering of the remaining tokens, in order, so
  no token of the argv comes from a bare \<open>{o_stun_server}\<close>; when the other tokens hold no
  brace, the argv is exactly those tokens. For a configuration with a non-empty \<open>ext_ip\<close>,
  the template is rendered as it is, \<open>{o_stun_server}\<close> gives
  \<open>--stun-server={stun_ip}:{stun_port}\<close>, and each field of the configuration is available
  under its name, through \<open>str\<close>.
\<close>

theorem render_cmd_placeholders:
  "(ext_ip netcfg = [] \<longrightarrow>
      render_cmd cmd netcfg
        = format_all ((placeholders netcfg)(''o_stun_server'' \<mapsto> []))
            (filter (\<lambda>t. t \<noteq> ''{o_stun_server}'') cmd)
    \<and> ((\<forall>t\<in>set cmd. t = ''{o_stun_server}'' \<or> (CHR ''{'' \<notin> set t \<and> CHR ''}'' \<notin> set t)) \<longrightarrow>
          render_cmd cmd netcfg = Inr (filter (\<lambda>t. t \<noteq> ''{o_stun_server}'') cmd)))
   \<and> (ext_ip netcfg \<noteq> [] \<longrightarrow>
      render_cmd cmd netcfg = format_all (placeholders netcfg) cmd
    \<and> py_format (placeholders netcfg) None ''{o_stun_server}''
        = Inr (''--stun-server='' @ stun_ip netcfg @ '':'' @ str_int (stun_port netcfg))
    \<and> py_format (placeholders netcfg) None ''{nat_type}'' = Inr (str_nat_type (nat_type netcfg))
    \<and> py_format (placeholders netcfg) None ''{src_ip}'' = Inr (src_ip netcfg)
    \<and> py_format (placeholders netcfg) None ''{ext_ip}'' = Inr (ext_ip netcfg)
    \<and> py_format (placeholders netcfg) None ''{stun_host}'' = Inr (stun_host netcfg)
    \<and> py_format (placeholders netcfg) None ''{stun_ip}'' = Inr (stun_ip netcfg)
    \<and> py_format (placeholders netcfg) None ''{stun_port}'' = Inr (str_int (stun_port netcfg)))"
proof (intro conjI impI)
  assume e: "ext_ip netcfg = []"
  then show r: "render_cmd cmd netcfg
        = format_all ((placeholders netcfg)(''o_stun_server'' \<mapsto> []))
            (filter (\<lambda>t. t \<noteq> ''{o_stun_server}'') cmd)"
    by (simp add: render_cmd_def remove_while_filter)
  assume p: "\<forall>t\<in>set cmd. t = ''{o_stun_server}'' \<or> (CHR ''{'' \<notin> set t \<and> CHR ''}'' \<notin> set t)"
  then have "\<forall>t\<in>set (filter (\<lambda>t. t \<noteq> ''{o_stun_server}'') cmd).
               CHR ''{'' \<notin> set t \<and> CHR ''}'' \<notin> set t"
    by auto
  from format_all_plain [OF this] r
  show "render_cmd cmd netcfg = Inr (filter (\<lambda>t. t \<noteq> ''{o_stun_server}'') cmd)" by simp
next
  assume "ext_ip netcfg \<noteq> []"
  then show "render_cmd cmd netcfg = format_all (placeholders netcfg) cmd"
    by (simp add: render_cmd_def)
qed (rule py_format_fields)+

theorem render_cmd_placeholders_witness:
  "render_cmd [''/usr/bin/live777'', ''--bind={src_ip}'', ''{o_stun_server}''] demo_netcfg
     = Inr [''/usr/bin/live777'', ''--bind=10.0.0.5'', ''--stun-server=192.0.2.1:3478'']
   \<and> render_cmd [''/usr/bin/live777'', ''{o_stun_server}'', ''--verbose'']
        (demo_netcfg\<lparr>ext_ip := []\<rparr>)
     = Inr [''/usr/bin/live777'', ''--verbose'']"
proof
  have ne: "ext_ip demo_netcfg \<noteq> []" by (simp add: demo_netcfg_def)
  have "format_all (placeholders demo_netcfg)
          [''/usr/bin/live777'', ''--bind={src_ip}'', ''{o_stun_server}'']
        = Inr [''/usr/bin/live777'', ''--bind=10.0.0.5'', ''--stun-server=192.0.2.1:3478'']"
    by code_simp
  with render_cmd_placeholders [of demo_netcfg
         "[''/usr/bin/live777'', ''--bind={src_ip}'', ''{o_stun_server}'']"] ne
  show "render_cmd [''/usr/bin/live777'', ''--bind={src_ip}'', ''{o_stun_server}''] demo_netcfg
     = Inr [''/usr/bin/live777'', ''--bind=10.0.0.5'', ''--stun-server=192.0.2.1:3478'']"
    by simp
next
  have e: "ext_ip (demo_netcfg\<lparr>ext_ip := []\<rparr>) = []" by simp
  have p: "\<forall>t\<in>set [''/usr/bin/live777'', ''{o_stun_server}'', ''--verbose''].
             t = ''{o_stun_server}'' \<or> (CHR ''{'' \<notin> set t \<and> CHR ''}'' \<notin> set t)"
    by simp
  from render_cmd_placeholders [of "demo_netcfg\<lparr>ext_ip := []\<rparr>"
         "[''/usr/bin/live777'', ''{o_stun_server}'', ''--verbose'']", THEN conjunct1, THEN mp,
         OF e, THEN conjunct2, THEN mp, OF p]
  show "render_cmd [''/usr/bin/live777'', ''{o_stun_server}'', ''--verbose'']
        (demo_netcfg\<lparr>ext_ip := []\<rparr>)
     = Inr [''/usr/bin/live777'', ''--verbose'']"
    by simp
qed

text \<open>C8 as stated fails: with an empty \<open>ext_ip\<close>, a template token that spells the option
  out is rendered with its \<open>--stun-server\<close> prefix, and the token \<open>{ext_ip}\<close> is rendered as
  an empty string.\<close>

theorem rendered_argv_with_empty_token:
  "render_cmd [''/usr/bin/live777'', ''{o_stun_server}'', ''--stun-server={stun_ip}:{stun_port}'',
               ''{ext_ip}'']
     (demo_netcfg\<lparr>ext_ip := []\<rparr>)
   = Inr [''/usr/bin/live777'', ''--stun-server=192.0.2.1:3478'', []]"
  by code_simp

end
